theory Spec2Isabelle
  imports Complex_Main "HOL-Library.Log_Nat" "HOL-Library.Monad_Syntax"
begin

section \<open>Year projection and valuation engine (internal/valuation/projection.go)\<close>

text \<open>
  The engine computes on Go's \<^verbatim>\<open>float64\<close>. Floating-point arithmetic obeys none of the
  usual algebraic laws, so the functions below are written for any number type \<open>'a\<close> that has
  the constants and operations the source uses (\<open>0\<close>, \<open>1\<close>, \<open>+\<close>, \<open>-\<close>, \<open>*\<close>, \<open>/\<close>, \<open>\<le>\<close>,
  \<open><\<close>) and assume nothing about them. Each theorem names the laws it needs through the sort of
  its number type: a theorem stated for every such type holds for binary64 as well, one stated
  for \<open>linordered_field\<close> is about exact arithmetic. The literal \<^verbatim>\<open>2\<close> is written \<open>1 + 1\<close>
  and \<^verbatim>\<open>x > 0\<close> is written \<open>0 < x\<close>.

  \<^verbatim>\<open>time.Month\<close> and years are Go \<^verbatim>\<open>int\<close>s, modelled as \<open>int\<close> (no value of the
  engine comes near the 64-bit range). A Go map is a partial function; a read of an absent key
  gives the zero value of the element type.
\<close>

subsection \<open>Data\<close>

record 'a MonthlyRevenue =
  Year :: int
  Month :: int
  Revenue :: 'a

record 'a MonthEstimate =
  Year :: int
  Month :: int
  Revenue :: 'a
  PreviousRevenue :: 'a
  YoY :: 'a
  PreviousMonthRevenue :: 'a
  MoM :: 'a
  ReferenceYoY :: 'a
  ReferenceMoM :: 'a
  ReferenceRevenue :: 'a
  HasReference :: bool
  IsActual :: bool

record 'a QuarterInputs =
  GrossMargin :: 'a
  OperatingExpense :: 'a
  NonOperatingIncome :: 'a
  TaxRate :: 'a

record 'a QuarterBreakdown =
  Quarter :: int
  Revenue :: 'a
  GrossProfit :: 'a
  OperatingIncome :: 'a
  PreTaxIncome :: 'a
  NetIncome :: 'a
  EPS :: 'a
  IsActual :: bool

text \<open>A nil pointer of \<^verbatim>\<open>QuarterOverride\<close> is \<open>None\<close>.\<close>

record 'a QuarterOverride =
  GrossMargin :: "'a option"
  OperatingExpense :: "'a option"
  NonOperatingIncome :: "'a option"
  TaxRate :: "'a option"

record 'a QuarterActual =
  NetIncome :: 'a
  EPS :: 'a

text \<open>The two map fields of \<^verbatim>\<open>Assumptions\<close> are tested against nil: \<open>None\<close> is the nil map.\<close>

record 'a Assumptions =
  GrossMargin :: 'a
  OperatingExpense :: 'a
  NonOperatingIncome :: 'a
  TaxRate :: 'a
  SharesOutstanding :: 'a
  PrevQuarterEPS :: 'a
  PerMultiple :: 'a
  CurrentPrice :: 'a
  QuarterOverrides :: "(int \<rightharpoonup> 'a QuarterOverride) option"
  ActualQuarters :: "(int \<rightharpoonup> 'a QuarterActual) option"

record 'a YearProjection =
  Year :: int
  Months :: "'a MonthEstimate list"
  Quarters :: "'a QuarterBreakdown list"
  AnnualRevenue :: 'a
  AnnualEPS :: 'a
  EstimatedPrice :: 'a
  Upside :: 'a
  AvgYoY :: 'a
  AvgMoM :: 'a

text \<open>The two errors of \<^verbatim>\<open>BuildYearProjection\<close>, by their \<^verbatim>\<open>fmt.Errorf\<close> call.\<close>

datatype error =
  MissingYearData int
| InvalidSharesOutstanding

subsection \<open>Go primitives\<close>

text \<open>
  \<^verbatim>\<open>sort.Slice\<close> with a \<open>less\<close> function, as an insertion sort that keeps equal elements in
  their order. Go's \<^verbatim>\<open>sort.Slice\<close> promises no order among elements that \<open>less\<close> does not
  separate; the theorems that depend on the order of such elements assume there are none.
\<close>

fun sortInsert :: "('b \<Rightarrow> 'b \<Rightarrow> bool) \<Rightarrow> 'b \<Rightarrow> 'b list \<Rightarrow> 'b list" where
  "sortInsert lt x [] = [x]"
| "sortInsert lt x (y # ys) = (if lt y x then y # sortInsert lt x ys else x # y # ys)"

definition sortSlice :: "('b \<Rightarrow> 'b \<Rightarrow> bool) \<Rightarrow> 'b list \<Rightarrow> 'b list" where
  "sortSlice lt xs = foldr (sortInsert lt) xs []"

text \<open>\<^verbatim>\<open>m[k]\<close> on a map of \<^verbatim>\<open>float64\<close> and on a map of records.\<close>

definition floatAt :: "(int \<rightharpoonup> 'a::zero) \<Rightarrow> int \<Rightarrow> 'a" where
  "floatAt m k = (case m k of None \<Rightarrow> 0 | Some v \<Rightarrow> v)"

definition recordAt :: "(int \<rightharpoonup> 'a::zero MonthlyRevenue) \<Rightarrow> int \<Rightarrow> 'a MonthlyRevenue" where
  "recordAt m k =
     (case m k of None \<Rightarrow> \<lparr>MonthlyRevenue.Year = 0, Month = 0, Revenue = 0\<rparr> | Some r \<Rightarrow> r)"

text \<open>\<^verbatim>\<open>grouped[year]\<close>: the nil slice when the year is absent.\<close>

definition recordsOf :: "(int \<rightharpoonup> 'a MonthlyRevenue list) \<Rightarrow> int \<Rightarrow> 'a MonthlyRevenue list" where
  "recordsOf grouped year = (case grouped year of None \<Rightarrow> [] | Some rs \<Rightarrow> rs)"

text \<open>
  The conversion \<^verbatim>\<open>float64(n)\<close> of a count, by counting up from 0: every count below
  \<open>2 ^ 53\<close> is a binary64 number, so no step rounds.
\<close>

fun float64 :: "nat \<Rightarrow> 'a::{zero,one,plus}" where
  "float64 0 = 0"
| "float64 (Suc n) = float64 n + 1"

text \<open>
  A \<^verbatim>\<open>for ... range m\<close> statement visits the keys of the map in an order the Go runtime
  chooses anew at each execution. The order is an argument of the model: a list \<open>ks\<close> is an
  order in which \<^verbatim>\<open>range m\<close> may run when it holds every key of \<open>m\<close> once.
\<close>

definition rangeOrder :: "(int \<rightharpoonup> 'v) \<Rightarrow> int list \<Rightarrow> bool" where
  "rangeOrder m ks \<longleftrightarrow> distinct ks \<and> set ks = dom m"

subsection \<open>internal/revenue/record.go\<close>

definition lessRecord :: "'a MonthlyRevenue \<Rightarrow> 'a MonthlyRevenue \<Rightarrow> bool" where
  "lessRecord a b =
     (if MonthlyRevenue.Year a = MonthlyRevenue.Year b
      then MonthlyRevenue.Month a < MonthlyRevenue.Month b
      else MonthlyRevenue.Year a < MonthlyRevenue.Year b)"

definition SortMonthlyRevenues :: "'a MonthlyRevenue list \<Rightarrow> 'a MonthlyRevenue list" where
  "SortMonthlyRevenues records = sortSlice lessRecord records"

subsection \<open>Helpers of projection.go\<close>

definition previousMonth :: "int \<Rightarrow> int" where
  "previousMonth m = (if m = 1 then 12 else m - 1)"

text \<open>
  The test \<^verbatim>\<open>prevRec, ok := current[prevMonth]; ok && prevRec.Year == rec.Year\<close>, which the
  source has twice.
\<close>

definition sameYearRecord ::
  "(int \<rightharpoonup> 'a MonthlyRevenue) \<Rightarrow> int \<Rightarrow> 'a MonthlyRevenue \<Rightarrow> 'a MonthlyRevenue option" where
  "sameYearRecord current prevMonth r =
     (case current prevMonth of
        None \<Rightarrow> None
      | Some prevRec \<Rightarrow>
          if MonthlyRevenue.Year prevRec = MonthlyRevenue.Year r then Some prevRec else None)"

definition previousYearMonthRevenue ::
  "(int \<rightharpoonup> 'a MonthlyRevenue) \<Rightarrow> (int \<rightharpoonup> 'a) \<Rightarrow> 'a MonthlyRevenue \<Rightarrow> 'a::zero" where
  "previousYearMonthRevenue current prev r =
     (let prevMonth = previousMonth (MonthlyRevenue.Month r) in
      case sameYearRecord current prevMonth r of
        Some prevRec \<Rightarrow> MonthlyRevenue.Revenue prevRec
      | None \<Rightarrow>
          if prevMonth = 12
          then (case prev prevMonth of Some v \<Rightarrow> v | None \<Rightarrow> 0)
          else 0)"

definition chooseReferenceRevenue ::
  "'a \<Rightarrow> 'a \<Rightarrow> 'a \<Rightarrow> 'a \<Rightarrow> 'a::{zero,one,plus,inverse,ord}" where
  "chooseReferenceRevenue prevYear prevMonth revenueYoY revenueMoM =
     (if 0 < prevYear \<and> 0 < prevMonth then (revenueYoY + revenueMoM) / (1 + 1)
      else if 0 < prevYear then revenueYoY
      else if 0 < prevMonth then revenueMoM
      else 0)"

definition quarterInputs :: "'a Assumptions \<Rightarrow> int \<Rightarrow> 'a QuarterInputs" where
  "quarterInputs a q =
     (let inputs = \<lparr>QuarterInputs.GrossMargin = Assumptions.GrossMargin a,
                    OperatingExpense = Assumptions.OperatingExpense a,
                    NonOperatingIncome = Assumptions.NonOperatingIncome a,
                    TaxRate = Assumptions.TaxRate a\<rparr> in
      case QuarterOverrides a of
        None \<Rightarrow> inputs
      | Some overrides \<Rightarrow>
          (case overrides q of
             None \<Rightarrow> inputs
           | Some override \<Rightarrow>
               \<lparr>QuarterInputs.GrossMargin =
                  (case QuarterOverride.GrossMargin override of
                     Some v \<Rightarrow> v | None \<Rightarrow> QuarterInputs.GrossMargin inputs),
                OperatingExpense =
                  (case QuarterOverride.OperatingExpense override of
                     Some v \<Rightarrow> v | None \<Rightarrow> QuarterInputs.OperatingExpense inputs),
                NonOperatingIncome =
                  (case QuarterOverride.NonOperatingIncome override of
                     Some v \<Rightarrow> v | None \<Rightarrow> QuarterInputs.NonOperatingIncome inputs),
                TaxRate =
                  (case QuarterOverride.TaxRate override of
                     Some v \<Rightarrow> v | None \<Rightarrow> QuarterInputs.TaxRate inputs)\<rparr>))"

text \<open>
  The counted loop \<^verbatim>\<open>for i := lo; i <= hi; i++ { body }\<close>, for a body that does not assign
  \<open>i\<close>; \<open>s\<close> holds the variables the body updates.
\<close>

function forLoop :: "int \<Rightarrow> int \<Rightarrow> (int \<Rightarrow> 's \<Rightarrow> 's) \<Rightarrow> 's \<Rightarrow> 's" where
  "forLoop i hi body s = (if i \<le> hi then forLoop (i + 1) hi body (body i s) else s)"
  by pat_completeness auto
termination
  by (relation "measure (\<lambda>(i, hi, body, s). nat (hi + 1 - i))") auto

subsection \<open>BuildYearProjection, lines 99 to 159: lookup tables and reference rates\<close>

fun buildMonthMap ::
  "int \<Rightarrow> 'a MonthlyRevenue list \<Rightarrow> (int \<rightharpoonup> 'a MonthlyRevenue) \<Rightarrow> (int \<rightharpoonup> 'a MonthlyRevenue)" where
  "buildMonthMap year [] monthMap = monthMap"
| "buildMonthMap year (r # rest) monthMap =
     (if MonthlyRevenue.Year r \<noteq> year then buildMonthMap year rest monthMap
      else buildMonthMap year rest (monthMap(MonthlyRevenue.Month r \<mapsto> r)))"

fun buildPrevMap :: "'a MonthlyRevenue list \<Rightarrow> (int \<rightharpoonup> 'a) \<Rightarrow> (int \<rightharpoonup> 'a)" where
  "buildPrevMap [] prevMap = prevMap"
| "buildPrevMap (r # rest) prevMap =
     buildPrevMap rest (prevMap(MonthlyRevenue.Month r \<mapsto> MonthlyRevenue.Revenue r))"

text \<open>
  The state of a rate loop: the sum, the count and the map of the recorded points
  (\<^verbatim>\<open>yoySum, yoyCount, actualYoY\<close> and \<^verbatim>\<open>momSum, momCount, actualMoM\<close>).
\<close>

type_synonym 'a rates = "'a \<times> nat \<times> (int \<rightharpoonup> 'a)"

text \<open>
  Lines 117 to 126, \<^verbatim>\<open>for month, rec := range monthMap\<close>: the list is the order in which the
  runtime hands out the keys.
\<close>

fun yoyLoop ::
  "(int \<rightharpoonup> 'a MonthlyRevenue) \<Rightarrow> (int \<rightharpoonup> 'a) \<Rightarrow> int list \<Rightarrow> 'a rates
     \<Rightarrow> ('a::{zero,plus,minus,inverse,ord}) rates" where
  "yoyLoop monthMap prevMap [] acc = acc"
| "yoyLoop monthMap prevMap (month # rest) (yoySum, yoyCount, actualYoY) =
     (let r = recordAt monthMap month;
          prev = floatAt prevMap month in
      if prev \<le> 0 then yoyLoop monthMap prevMap rest (yoySum, yoyCount, actualYoY)
      else
        let yoy = (MonthlyRevenue.Revenue r - prev) / prev in
        yoyLoop monthMap prevMap rest (yoySum + yoy, Suc yoyCount, actualYoY(month \<mapsto> yoy)))"

text \<open>
  Lines 133 to 151, over \<^verbatim>\<open>sortedMonths\<close>. \<open>momBase\<close> is the value of
  \<^verbatim>\<open>prevRevenue\<close> that lines 135 to 143 compute for a month.
\<close>

definition momBase ::
  "(int \<rightharpoonup> 'a MonthlyRevenue) \<Rightarrow> (int \<rightharpoonup> 'a) \<Rightarrow> int \<Rightarrow> 'a::zero" where
  "momBase monthMap prevMap month =
     (let r = recordAt monthMap month;
          prevMonth = previousMonth month in
      case sameYearRecord monthMap prevMonth r of
        Some prevRec \<Rightarrow> MonthlyRevenue.Revenue prevRec
      | None \<Rightarrow>
          if prevMonth = 12
          then (case prevMap prevMonth of Some prev \<Rightarrow> prev | None \<Rightarrow> 0)
          else 0)"

fun momLoop ::
  "(int \<rightharpoonup> 'a MonthlyRevenue) \<Rightarrow> (int \<rightharpoonup> 'a) \<Rightarrow> int list \<Rightarrow> 'a rates
     \<Rightarrow> ('a::{zero,plus,minus,inverse,ord}) rates" where
  "momLoop monthMap prevMap [] acc = acc"
| "momLoop monthMap prevMap (month # rest) (momSum, momCount, actualMoM) =
     (let r = recordAt monthMap month;
          prevRevenue = momBase monthMap prevMap month in
      if prevRevenue \<le> 0 then momLoop monthMap prevMap rest (momSum, momCount, actualMoM)
      else
        let mom = (MonthlyRevenue.Revenue r - prevRevenue) / prevRevenue in
        momLoop monthMap prevMap rest (momSum + mom, Suc momCount, actualMoM(month \<mapsto> mom)))"

text \<open>Lines 152 to 159, the same computation for \<^verbatim>\<open>avgYoY\<close> and \<^verbatim>\<open>avgMoM\<close>.\<close>

definition average :: "'a \<Rightarrow> nat \<Rightarrow> 'a::{zero,one,plus,inverse}" where
  "average s n = (if 0 < n then s / float64 n else 0)"

subsection \<open>BuildYearProjection, lines 161 to 232: the twelve months\<close>

text \<open>The variables the month loop updates: \<^verbatim>\<open>months, totalRevenue, lastRevenue\<close>.\<close>

type_synonym 'a monthState = "'a MonthEstimate list \<times> 'a \<times> 'a"

definition actualMonth ::
  "int \<Rightarrow> (int \<rightharpoonup> 'a MonthlyRevenue) \<Rightarrow> (int \<rightharpoonup> 'a) \<Rightarrow> (int \<rightharpoonup> 'a) \<Rightarrow> (int \<rightharpoonup> 'a)
     \<Rightarrow> int \<Rightarrow> 'a MonthlyRevenue \<Rightarrow> 'a \<Rightarrow> ('a::{zero,plus,minus,inverse,ord}) MonthEstimate" where
  "actualMonth year monthMap prevMap actualYoY actualMoM m r lastRevenue =
     (let prevYearRevenue = floatAt prevMap m;
          prevMonthRevenue = lastRevenue;
          yoy = floatAt actualYoY m;
          prevMonthRevenue =
            (if prevMonthRevenue \<le> 0 then previousYearMonthRevenue monthMap prevMap r
             else prevMonthRevenue);
          mom =
            (case actualMoM m of
               Some v \<Rightarrow> v
             | None \<Rightarrow>
                 if 0 < prevMonthRevenue
                 then (MonthlyRevenue.Revenue r - prevMonthRevenue) / prevMonthRevenue
                 else 0)
      in \<lparr>MonthEstimate.Year = year, Month = m, Revenue = MonthlyRevenue.Revenue r,
          PreviousRevenue = prevYearRevenue, YoY = yoy,
          PreviousMonthRevenue = prevMonthRevenue, MoM = mom,
          ReferenceYoY = 0, ReferenceMoM = 0, ReferenceRevenue = 0,
          HasReference = False, IsActual = True\<rparr>)"

definition missingMonth ::
  "int \<Rightarrow> (int \<rightharpoonup> 'a) \<Rightarrow> 'a \<Rightarrow> 'a \<Rightarrow> (int \<rightharpoonup> 'a) \<Rightarrow> int \<Rightarrow> 'a
     \<Rightarrow> ('a::{zero,one,plus,minus,times,inverse,ord}) MonthEstimate" where
  "missingMonth year prevMap avgYoY avgMoM manualYoY m lastRevenue =
     (let prevYearRevenue = floatAt prevMap m;
          prevMonthRevenue = lastRevenue;
          yoy = (case manualYoY m of Some v \<Rightarrow> v | None \<Rightarrow> avgYoY);
          referenceYoY = yoy;
          referenceMoM = avgMoM;
          revenueYoY = prevYearRevenue * (1 + referenceYoY);
          revenueMoM = prevMonthRevenue * (1 + referenceMoM);
          (hasReference, revenue) =
            (if 0 < prevYearRevenue then (True, revenueYoY)
             else if 0 < prevMonthRevenue then (True, revenueMoM)
             else (False, revenueYoY));
          mom =
            (if 0 < prevMonthRevenue then (revenue - prevMonthRevenue) / prevMonthRevenue
             else 0)
      in \<lparr>MonthEstimate.Year = year, Month = m, Revenue = revenue,
          PreviousRevenue = prevYearRevenue, YoY = yoy,
          PreviousMonthRevenue = prevMonthRevenue, MoM = mom,
          ReferenceYoY = referenceYoY, ReferenceMoM = referenceMoM,
          ReferenceRevenue =
            chooseReferenceRevenue prevYearRevenue prevMonthRevenue revenueYoY revenueMoM,
          HasReference = hasReference, IsActual = False\<rparr>)"

text \<open>
  One turn of the loop of line 164. An actual month sets \<^verbatim>\<open>lastRevenue\<close> to its revenue
  (line 189), an estimated month only when the estimate is positive (lines 228 to 230).
\<close>

definition monthBody ::
  "int \<Rightarrow> (int \<rightharpoonup> 'a MonthlyRevenue) \<Rightarrow> (int \<rightharpoonup> 'a) \<Rightarrow> (int \<rightharpoonup> 'a) \<Rightarrow> (int \<rightharpoonup> 'a)
     \<Rightarrow> 'a \<Rightarrow> 'a \<Rightarrow> (int \<rightharpoonup> 'a) \<Rightarrow> int \<Rightarrow> 'a monthState
     \<Rightarrow> ('a::{zero,one,plus,minus,times,inverse,ord}) monthState" where
  "monthBody year monthMap prevMap actualYoY actualMoM avgYoY avgMoM manualYoY m st =
     (case st of (months, totalRevenue, lastRevenue) \<Rightarrow>
        (case monthMap m of
           Some r \<Rightarrow>
             let e = actualMonth year monthMap prevMap actualYoY actualMoM m r lastRevenue in
             (months @ [e], totalRevenue + MonthlyRevenue.Revenue r, MonthlyRevenue.Revenue r)
         | None \<Rightarrow>
             let e = missingMonth year prevMap avgYoY avgMoM manualYoY m lastRevenue;
                 revenue = MonthEstimate.Revenue e in
             (months @ [e], totalRevenue + revenue,
              if 0 < revenue then revenue else lastRevenue)))"


subsection \<open>BuildYearProjection, lines 234 to 282: the four quarters\<close>

text \<open>
  Lines 243 to 251: the first element of \<^verbatim>\<open>months\<close> with the month sought, if there is one,
  adds to \<^verbatim>\<open>revenueSum\<close> and may clear \<^verbatim>\<open>allActual\<close>.
\<close>

definition quarterMonth ::
  "'a MonthEstimate list \<Rightarrow> int \<Rightarrow> 'a \<times> bool \<Rightarrow> ('a::plus) \<times> bool" where
  "quarterMonth months month st =
     (case st of (revenueSum, allActual) \<Rightarrow>
        (case find (\<lambda>item. MonthEstimate.Month item = month) months of
           None \<Rightarrow> (revenueSum, allActual)
         | Some item \<Rightarrow>
             (revenueSum + MonthEstimate.Revenue item,
              if \<not> MonthEstimate.IsActual item then False else allActual)))"

text \<open>Lines 269 to 279: the disclosed figures of a quarter replace the computed ones.\<close>

definition applyActual ::
  "'a Assumptions \<Rightarrow> int \<Rightarrow> 'a QuarterBreakdown \<Rightarrow> ('a::{zero,inverse,ord}) QuarterBreakdown" where
  "applyActual asm q quarter =
     (case ActualQuarters asm of
        None \<Rightarrow> quarter
      | Some actuals \<Rightarrow>
          (case actuals q of
             None \<Rightarrow> quarter
           | Some actual \<Rightarrow>
               if 0 < QuarterActual.NetIncome actual
               then quarter\<lparr>QuarterBreakdown.NetIncome := QuarterActual.NetIncome actual,
                            QuarterBreakdown.EPS :=
                              (if 0 < QuarterActual.EPS actual then QuarterActual.EPS actual
                               else QuarterActual.NetIncome actual / SharesOutstanding asm),
                            QuarterBreakdown.IsActual := True\<rparr>
               else quarter))"

text \<open>Lines 237 to 279: the \<^verbatim>\<open>QuarterBreakdown\<close> of quarter \<open>q\<close>.\<close>

definition computeQuarter ::
  "'a Assumptions \<Rightarrow> 'a MonthEstimate list \<Rightarrow> int
     \<Rightarrow> ('a::{zero,one,plus,minus,times,inverse,ord}) QuarterBreakdown" where
  "computeQuarter asm months q =
     (let start = (q - 1) * 3 + 1;
          endm = start + 2;
          (revenueSum, allActual) = forLoop start endm (quarterMonth months) (0, True);
          inputs = quarterInputs asm q;
          gross = revenueSum * QuarterInputs.GrossMargin inputs;
          operating = gross - QuarterInputs.OperatingExpense inputs;
          preTax = operating + QuarterInputs.NonOperatingIncome inputs;
          netIncome = preTax * (1 - QuarterInputs.TaxRate inputs);
          eps = netIncome / SharesOutstanding asm;
          quarter = \<lparr>Quarter = q, Revenue = revenueSum, GrossProfit = gross,
                     OperatingIncome = operating, PreTaxIncome = preTax,
                     NetIncome = netIncome, EPS = eps, IsActual = allActual\<rparr>
      in applyActual asm q quarter)"

text \<open>One turn of the loop of line 236; it updates \<^verbatim>\<open>quarters\<close> and \<^verbatim>\<open>annualEPS\<close>.\<close>

definition quarterBody ::
  "'a Assumptions \<Rightarrow> 'a MonthEstimate list \<Rightarrow> int \<Rightarrow> 'a QuarterBreakdown list \<times> 'a
     \<Rightarrow> ('a::{zero,one,plus,minus,times,inverse,ord}) QuarterBreakdown list \<times> 'a" where
  "quarterBody asm months q st =
     (case st of (quarters, annualEPS) \<Rightarrow>
        let quarter = computeQuarter asm months q in
        (quarters @ [quarter], annualEPS + QuarterBreakdown.EPS quarter))"

subsection \<open>BuildYearProjection\<close>

definition zeroProjection :: "('a::zero) YearProjection" where
  "zeroProjection =
     \<lparr>YearProjection.Year = 0, Months = [], Quarters = [], AnnualRevenue = 0, AnnualEPS = 0,
      EstimatedPrice = 0, Upside = 0, AvgYoY = 0, AvgMoM = 0\<rparr>"

text \<open>The tables of lines 90 to 109, named so that theorems can speak of them.\<close>

definition monthMapOf :: "int \<Rightarrow> (int \<rightharpoonup> 'a MonthlyRevenue list) \<Rightarrow> (int \<rightharpoonup> 'a MonthlyRevenue)" where
  "monthMapOf year grouped =
     buildMonthMap year (SortMonthlyRevenues (recordsOf grouped year)) Map.empty"

definition prevMapOf :: "int \<Rightarrow> (int \<rightharpoonup> 'a MonthlyRevenue list) \<Rightarrow> (int \<rightharpoonup> 'a)" where
  "prevMapOf year grouped =
     buildPrevMap (SortMonthlyRevenues (recordsOf grouped (year - 1))) Map.empty"

text \<open>
  The two rate loops from their initial state. \<open>order1\<close> is the order of the \<^verbatim>\<open>range\<close> of
  line 117; \<open>order2\<close> is that of line 129, which only collects the keys that line 132 sorts.
\<close>

definition yoyRates ::
  "(int \<rightharpoonup> 'a MonthlyRevenue) \<Rightarrow> (int \<rightharpoonup> 'a) \<Rightarrow> int list
     \<Rightarrow> ('a::{zero,plus,minus,inverse,ord}) rates" where
  "yoyRates monthMap prevMap order1 = yoyLoop monthMap prevMap order1 (0, 0, Map.empty)"

definition momRates ::
  "(int \<rightharpoonup> 'a MonthlyRevenue) \<Rightarrow> (int \<rightharpoonup> 'a) \<Rightarrow> int list
     \<Rightarrow> ('a::{zero,plus,minus,inverse,ord}) rates" where
  "momRates monthMap prevMap order2 =
     (let sortedMonths = sortSlice (<) order2 in
      momLoop monthMap prevMap sortedMonths (0, 0, Map.empty))"

text \<open>
  The month loop of line 164 run for the months \<open>1\<close> to \<open>k\<close> with the rates of lines 111 to
  159: \<^verbatim>\<open>BuildYearProjection\<close> runs it to \<open>12\<close>, and the third component at \<open>m - 1\<close> is the value
  of \<^verbatim>\<open>lastRevenue\<close> with which the loop enters month \<open>m\<close>.
\<close>

definition monthLoop ::
  "int list \<Rightarrow> int list \<Rightarrow> int \<Rightarrow> (int \<rightharpoonup> 'a MonthlyRevenue) \<Rightarrow> (int \<rightharpoonup> 'a) \<Rightarrow> (int \<rightharpoonup> 'a)
     \<Rightarrow> int \<Rightarrow> ('a::{zero,one,plus,minus,times,inverse,ord}) monthState" where
  "monthLoop order1 order2 year monthMap prevMap manualYoY k =
     (let (yoySum, yoyCount, actualYoY) = yoyRates monthMap prevMap order1;
          (momSum, momCount, actualMoM) = momRates monthMap prevMap order2;
          avgYoY = average yoySum yoyCount;
          avgMoM = average momSum momCount
      in forLoop 1 k
           (monthBody year monthMap prevMap actualYoY actualMoM avgYoY avgMoM manualYoY)
           ([], 0, 0))"

definition lastRevenueAt ::
  "int list \<Rightarrow> int list \<Rightarrow> int \<Rightarrow> (int \<rightharpoonup> 'a MonthlyRevenue) \<Rightarrow> (int \<rightharpoonup> 'a) \<Rightarrow> (int \<rightharpoonup> 'a)
     \<Rightarrow> int \<Rightarrow> 'a::{zero,one,plus,minus,times,inverse,ord}" where
  "lastRevenueAt order1 order2 year monthMap prevMap manualYoY m =
     snd (snd (monthLoop order1 order2 year monthMap prevMap manualYoY (m - 1)))"

text \<open>Lines 111 to 301, after the two checks.\<close>

definition project ::
  "int list \<Rightarrow> int list \<Rightarrow> int \<Rightarrow> (int \<rightharpoonup> 'a MonthlyRevenue) \<Rightarrow> (int \<rightharpoonup> 'a) \<Rightarrow> (int \<rightharpoonup> 'a)
     \<Rightarrow> 'a Assumptions \<Rightarrow> ('a::{zero,one,plus,minus,times,inverse,ord}) YearProjection" where
  "project order1 order2 year monthMap prevMap manualYoY asm =
     (let (yoySum, yoyCount, actualYoY) = yoyRates monthMap prevMap order1;
          (momSum, momCount, actualMoM) = momRates monthMap prevMap order2;
          avgYoY = average yoySum yoyCount;
          avgMoM = average momSum momCount;
          (months, totalRevenue, lastRevenue) =
            forLoop 1 12
              (monthBody year monthMap prevMap actualYoY actualMoM avgYoY avgMoM manualYoY)
              ([], 0, 0);
          months = sortSlice (\<lambda>a b. MonthEstimate.Month a < MonthEstimate.Month b) months;
          (quarters, annualEPS) = forLoop 1 4 (quarterBody asm months) ([], 0);
          estimatedPrice = annualEPS * PerMultiple asm;
          upside =
            (if 0 < CurrentPrice asm
             then (estimatedPrice - CurrentPrice asm) / CurrentPrice asm
             else 0)
      in \<lparr>YearProjection.Year = year, Months = months, Quarters = quarters,
          AnnualRevenue = totalRevenue, AnnualEPS = annualEPS,
          EstimatedPrice = estimatedPrice, Upside = upside,
          AvgYoY = avgYoY, AvgMoM = avgMoM\<rparr>)"

text \<open>
  \<^verbatim>\<open>BuildYearProjection\<close> returns a projection and an error, \<open>None\<close> for the nil error.
  Its first two arguments are the orders of the two range statements over \<^verbatim>\<open>monthMap\<close>;
  the others are those of the source.
\<close>

definition BuildYearProjection ::
  "int list \<Rightarrow> int list \<Rightarrow> int \<Rightarrow> (int \<rightharpoonup> 'a MonthlyRevenue list) \<Rightarrow> (int \<rightharpoonup> 'a)
     \<Rightarrow> 'a Assumptions
     \<Rightarrow> ('a::{zero,one,plus,minus,times,inverse,ord}) YearProjection \<times> error option" where
  "BuildYearProjection order1 order2 year grouped manualYoY asm =
     (let current = SortMonthlyRevenues (recordsOf grouped year) in
      if length current = 0 then (zeroProjection, Some (MissingYearData year))
      else if SharesOutstanding asm \<le> 0 then (zeroProjection, Some InvalidSharesOutstanding)
      else
        (project order1 order2 year (monthMapOf year grouped) (prevMapOf year grouped)
           manualYoY asm, None))"

subsection \<open>The engine with checked divisions\<close>

text \<open>
  The functions of \<^verbatim>\<open>projection.go\<close> that divide, once more, with every division of the
  source replaced by \<open>checkedDiv ok\<close>: a division whose divisor does not satisfy \<open>ok\<close> stops
  the computation with \<open>None\<close>. Everything else is as above, statement by statement. Two
  conditions on a divisor are of interest first: to be strictly positive, and not to be zero.
\<close>

definition checkedDiv :: "('a \<Rightarrow> bool) \<Rightarrow> 'a \<Rightarrow> 'a \<Rightarrow> ('a::inverse) option" where
  "checkedDiv ok a b = (if ok b then Some (a / b) else None)"

definition strictlyPositive :: "'a::{zero,ord} \<Rightarrow> bool" where
  "strictlyPositive b \<longleftrightarrow> 0 < b"

definition notZero :: "'a::zero \<Rightarrow> bool" where
  "notZero b \<longleftrightarrow> b \<noteq> 0"

text \<open>
  The tests of the source in front of a division are of two forms: \<^verbatim>\<open>if b > 0\<close> around
  the division, and \<^verbatim>\<open>if b <= 0\<close> with a \<^verbatim>\<open>continue\<close> or a \<^verbatim>\<open>return\<close> before it. A
  divisor is guarded when it passes one of them.
\<close>

definition guarded :: "'a::{zero,ord} \<Rightarrow> bool" where
  "guarded b \<longleftrightarrow> 0 < b \<or> \<not> b \<le> 0"

function forLoopChecked ::
  "int \<Rightarrow> int \<Rightarrow> (int \<Rightarrow> 's \<Rightarrow> 's option) \<Rightarrow> 's \<Rightarrow> 's option" where
  "forLoopChecked i hi body s =
     (if i \<le> hi
      then (case body i s of None \<Rightarrow> None | Some s' \<Rightarrow> forLoopChecked (i + 1) hi body s')
      else Some s)"
  by pat_completeness auto
termination
  by (relation "measure (\<lambda>(i, hi, body, s). nat (hi + 1 - i))") auto

declare forLoopChecked.simps [simp del]

fun yoyLoopChecked ::
  "('a \<Rightarrow> bool) \<Rightarrow> (int \<rightharpoonup> 'a MonthlyRevenue) \<Rightarrow> (int \<rightharpoonup> 'a) \<Rightarrow> int list \<Rightarrow> 'a rates
     \<Rightarrow> ('a::{zero,plus,minus,inverse,ord}) rates option" where
  "yoyLoopChecked ok monthMap prevMap [] acc = Some acc"
| "yoyLoopChecked ok monthMap prevMap (month # rest) (yoySum, yoyCount, actualYoY) =
     (let r = recordAt monthMap month;
          prev = floatAt prevMap month in
      if prev \<le> 0 then yoyLoopChecked ok monthMap prevMap rest (yoySum, yoyCount, actualYoY)
      else do {
        yoy \<leftarrow> checkedDiv ok (MonthlyRevenue.Revenue r - prev) prev;
        yoyLoopChecked ok monthMap prevMap rest
          (yoySum + yoy, Suc yoyCount, actualYoY(month \<mapsto> yoy))
      })"

fun momLoopChecked ::
  "('a \<Rightarrow> bool) \<Rightarrow> (int \<rightharpoonup> 'a MonthlyRevenue) \<Rightarrow> (int \<rightharpoonup> 'a) \<Rightarrow> int list \<Rightarrow> 'a rates
     \<Rightarrow> ('a::{zero,plus,minus,inverse,ord}) rates option" where
  "momLoopChecked ok monthMap prevMap [] acc = Some acc"
| "momLoopChecked ok monthMap prevMap (month # rest) (momSum, momCount, actualMoM) =
     (let r = recordAt monthMap month;
          prevRevenue = momBase monthMap prevMap month in
      if prevRevenue \<le> 0
      then momLoopChecked ok monthMap prevMap rest (momSum, momCount, actualMoM)
      else do {
        mom \<leftarrow> checkedDiv ok (MonthlyRevenue.Revenue r - prevRevenue) prevRevenue;
        momLoopChecked ok monthMap prevMap rest
          (momSum + mom, Suc momCount, actualMoM(month \<mapsto> mom))
      })"

definition averageChecked :: "('a \<Rightarrow> bool) \<Rightarrow> 'a \<Rightarrow> nat \<Rightarrow> ('a::{zero,one,plus,inverse,ord}) option" where
  "averageChecked ok s n = (if 0 < n then checkedDiv ok s (float64 n) else Some 0)"

definition chooseReferenceRevenueChecked ::
  "('a \<Rightarrow> bool) \<Rightarrow> 'a \<Rightarrow> 'a \<Rightarrow> 'a \<Rightarrow> 'a \<Rightarrow> ('a::{zero,one,plus,inverse,ord}) option" where
  "chooseReferenceRevenueChecked ok prevYear prevMonth revenueYoY revenueMoM =
     (if 0 < prevYear \<and> 0 < prevMonth then checkedDiv ok (revenueYoY + revenueMoM) (1 + 1)
      else if 0 < prevYear then Some revenueYoY
      else if 0 < prevMonth then Some revenueMoM
      else Some 0)"

definition actualMonthChecked ::
  "('a \<Rightarrow> bool) \<Rightarrow> int \<Rightarrow> (int \<rightharpoonup> 'a MonthlyRevenue) \<Rightarrow> (int \<rightharpoonup> 'a) \<Rightarrow> (int \<rightharpoonup> 'a) \<Rightarrow> (int \<rightharpoonup> 'a)
     \<Rightarrow> int \<Rightarrow> 'a MonthlyRevenue \<Rightarrow> 'a
     \<Rightarrow> ('a::{zero,plus,minus,inverse,ord}) MonthEstimate option" where
  "actualMonthChecked ok year monthMap prevMap actualYoY actualMoM m r lastRevenue =
     (let prevYearRevenue = floatAt prevMap m;
          prevMonthRevenue = lastRevenue;
          yoy = floatAt actualYoY m;
          prevMonthRevenue =
            (if prevMonthRevenue \<le> 0 then previousYearMonthRevenue monthMap prevMap r
             else prevMonthRevenue)
      in do {
        mom \<leftarrow>
          (case actualMoM m of
             Some v \<Rightarrow> Some v
           | None \<Rightarrow>
               if 0 < prevMonthRevenue
               then checkedDiv ok (MonthlyRevenue.Revenue r - prevMonthRevenue) prevMonthRevenue
               else Some 0);
        Some \<lparr>MonthEstimate.Year = year, Month = m, Revenue = MonthlyRevenue.Revenue r,
              PreviousRevenue = prevYearRevenue, YoY = yoy,
              PreviousMonthRevenue = prevMonthRevenue, MoM = mom,
              ReferenceYoY = 0, ReferenceMoM = 0, ReferenceRevenue = 0,
              HasReference = False, IsActual = True\<rparr>
      })"

definition missingMonthChecked ::
  "('a \<Rightarrow> bool) \<Rightarrow> int \<Rightarrow> (int \<rightharpoonup> 'a) \<Rightarrow> 'a \<Rightarrow> 'a \<Rightarrow> (int \<rightharpoonup> 'a) \<Rightarrow> int \<Rightarrow> 'a
     \<Rightarrow> ('a::{zero,one,plus,minus,times,inverse,ord}) MonthEstimate option" where
  "missingMonthChecked ok year prevMap avgYoY avgMoM manualYoY m lastRevenue =
     (let prevYearRevenue = floatAt prevMap m;
          prevMonthRevenue = lastRevenue;
          yoy = (case manualYoY m of Some v \<Rightarrow> v | None \<Rightarrow> avgYoY);
          referenceYoY = yoy;
          referenceMoM = avgMoM;
          revenueYoY = prevYearRevenue * (1 + referenceYoY);
          revenueMoM = prevMonthRevenue * (1 + referenceMoM);
          (hasReference, revenue) =
            (if 0 < prevYearRevenue then (True, revenueYoY)
             else if 0 < prevMonthRevenue then (True, revenueMoM)
             else (False, revenueYoY))
      in do {
        mom \<leftarrow>
          (if 0 < prevMonthRevenue
           then checkedDiv ok (revenue - prevMonthRevenue) prevMonthRevenue
           else Some 0);
        referenceRevenue \<leftarrow>
          chooseReferenceRevenueChecked ok prevYearRevenue prevMonthRevenue revenueYoY revenueMoM;
        Some \<lparr>MonthEstimate.Year = year, Month = m, Revenue = revenue,
              PreviousRevenue = prevYearRevenue, YoY = yoy,
              PreviousMonthRevenue = prevMonthRevenue, MoM = mom,
              ReferenceYoY = referenceYoY, ReferenceMoM = referenceMoM,
              ReferenceRevenue = referenceRevenue,
              HasReference = hasReference, IsActual = False\<rparr>
      })"

definition monthBodyChecked ::
  "('a \<Rightarrow> bool) \<Rightarrow> int \<Rightarrow> (int \<rightharpoonup> 'a MonthlyRevenue) \<Rightarrow> (int \<rightharpoonup> 'a) \<Rightarrow> (int \<rightharpoonup> 'a) \<Rightarrow> (int \<rightharpoonup> 'a)
     \<Rightarrow> 'a \<Rightarrow> 'a \<Rightarrow> (int \<rightharpoonup> 'a) \<Rightarrow> int \<Rightarrow> 'a monthState
     \<Rightarrow> ('a::{zero,one,plus,minus,times,inverse,ord}) monthState option" where
  "monthBodyChecked ok year monthMap prevMap actualYoY actualMoM avgYoY avgMoM manualYoY m st =
     (case st of (months, totalRevenue, lastRevenue) \<Rightarrow>
        (case monthMap m of
           Some r \<Rightarrow> do {
             e \<leftarrow> actualMonthChecked ok year monthMap prevMap actualYoY actualMoM m r lastRevenue;
             Some (months @ [e], totalRevenue + MonthlyRevenue.Revenue r,
                   MonthlyRevenue.Revenue r)
           }
         | None \<Rightarrow> do {
             e \<leftarrow> missingMonthChecked ok year prevMap avgYoY avgMoM manualYoY m lastRevenue;
             let revenue = MonthEstimate.Revenue e;
             Some (months @ [e], totalRevenue + revenue,
                   if 0 < revenue then revenue else lastRevenue)
           }))"

definition applyActualChecked ::
  "('a \<Rightarrow> bool) \<Rightarrow> 'a Assumptions \<Rightarrow> int \<Rightarrow> 'a QuarterBreakdown
     \<Rightarrow> ('a::{zero,inverse,ord}) QuarterBreakdown option" where
  "applyActualChecked ok asm q quarter =
     (case ActualQuarters asm of
        None \<Rightarrow> Some quarter
      | Some actuals \<Rightarrow>
          (case actuals q of
             None \<Rightarrow> Some quarter
           | Some actual \<Rightarrow>
               if 0 < QuarterActual.NetIncome actual
               then do {
                 eps \<leftarrow>
                   (if 0 < QuarterActual.EPS actual then Some (QuarterActual.EPS actual)
                    else checkedDiv ok (QuarterActual.NetIncome actual) (SharesOutstanding asm));
                 Some (quarter\<lparr>QuarterBreakdown.NetIncome := QuarterActual.NetIncome actual,
                              QuarterBreakdown.EPS := eps,
                              QuarterBreakdown.IsActual := True\<rparr>)
               }
               else Some quarter))"

definition computeQuarterChecked ::
  "('a \<Rightarrow> bool) \<Rightarrow> 'a Assumptions \<Rightarrow> 'a MonthEstimate list \<Rightarrow> int
     \<Rightarrow> ('a::{zero,one,plus,minus,times,inverse,ord}) QuarterBreakdown option" where
  "computeQuarterChecked ok asm months q =
     (let start = (q - 1) * 3 + 1;
          endm = start + 2;
          (revenueSum, allActual) = forLoop start endm (quarterMonth months) (0, True);
          inputs = quarterInputs asm q;
          gross = revenueSum * QuarterInputs.GrossMargin inputs;
          operating = gross - QuarterInputs.OperatingExpense inputs;
          preTax = operating + QuarterInputs.NonOperatingIncome inputs;
          netIncome = preTax * (1 - QuarterInputs.TaxRate inputs)
      in do {
        eps \<leftarrow> checkedDiv ok netIncome (SharesOutstanding asm);
        applyActualChecked ok asm q
          \<lparr>Quarter = q, Revenue = revenueSum, GrossProfit = gross,
           OperatingIncome = operating, PreTaxIncome = preTax,
           NetIncome = netIncome, EPS = eps, IsActual = allActual\<rparr>
      })"

definition quarterBodyChecked ::
  "('a \<Rightarrow> bool) \<Rightarrow> 'a Assumptions \<Rightarrow> 'a MonthEstimate list \<Rightarrow> int \<Rightarrow> 'a QuarterBreakdown list \<times> 'a
     \<Rightarrow> (('a::{zero,one,plus,minus,times,inverse,ord}) QuarterBreakdown list \<times> 'a) option" where
  "quarterBodyChecked ok asm months q st =
     (case st of (quarters, annualEPS) \<Rightarrow> do {
        quarter \<leftarrow> computeQuarterChecked ok asm months q;
        Some (quarters @ [quarter], annualEPS + QuarterBreakdown.EPS quarter)
      })"

definition projectChecked ::
  "('a \<Rightarrow> bool) \<Rightarrow> int list \<Rightarrow> int list \<Rightarrow> int \<Rightarrow> (int \<rightharpoonup> 'a MonthlyRevenue) \<Rightarrow> (int \<rightharpoonup> 'a) \<Rightarrow> (int \<rightharpoonup> 'a)
     \<Rightarrow> 'a Assumptions
     \<Rightarrow> ('a::{zero,one,plus,minus,times,inverse,ord}) YearProjection option" where
  "projectChecked ok order1 order2 year monthMap prevMap manualYoY asm = do {
     (yoySum, yoyCount, actualYoY) \<leftarrow>
       yoyLoopChecked ok monthMap prevMap order1 (0, 0, Map.empty);
     (momSum, momCount, actualMoM) \<leftarrow>
       momLoopChecked ok monthMap prevMap (sortSlice (<) order2) (0, 0, Map.empty);
     avgYoY \<leftarrow> averageChecked ok yoySum yoyCount;
     avgMoM \<leftarrow> averageChecked ok momSum momCount;
     (months, totalRevenue, lastRevenue) \<leftarrow>
       forLoopChecked 1 12
         (monthBodyChecked ok year monthMap prevMap actualYoY actualMoM avgYoY avgMoM manualYoY)
         ([], 0, 0);
     let months = sortSlice (\<lambda>a b. MonthEstimate.Month a < MonthEstimate.Month b) months;
     (quarters, annualEPS) \<leftarrow> forLoopChecked 1 4 (quarterBodyChecked ok asm months) ([], 0);
     let estimatedPrice = annualEPS * PerMultiple asm;
     upside \<leftarrow>
       (if 0 < CurrentPrice asm
        then checkedDiv ok (estimatedPrice - CurrentPrice asm) (CurrentPrice asm)
        else Some 0);
     Some \<lparr>YearProjection.Year = year, Months = months, Quarters = quarters,
           AnnualRevenue = totalRevenue, AnnualEPS = annualEPS,
           EstimatedPrice = estimatedPrice, Upside = upside,
           AvgYoY = avgYoY, AvgMoM = avgMoM\<rparr>
   }"

definition BuildYearProjectionChecked ::
  "('a \<Rightarrow> bool) \<Rightarrow> int list \<Rightarrow> int list \<Rightarrow> int \<Rightarrow> (int \<rightharpoonup> 'a MonthlyRevenue list) \<Rightarrow> (int \<rightharpoonup> 'a)
     \<Rightarrow> 'a Assumptions
     \<Rightarrow> (('a::{zero,one,plus,minus,times,inverse,ord}) YearProjection \<times> error option) option" where
  "BuildYearProjectionChecked ok order1 order2 year grouped manualYoY asm =
     (let current = SortMonthlyRevenues (recordsOf grouped year) in
      if length current = 0 then Some (zeroProjection, Some (MissingYearData year))
      else if SharesOutstanding asm \<le> 0
      then Some (zeroProjection, Some InvalidSharesOutstanding)
      else do {
        p \<leftarrow> projectChecked ok order1 order2 year (monthMapOf year grouped) (prevMapOf year grouped)
               manualYoY asm;
        Some (p, None)
      })"

subsection \<open>The inputs of the repository's tests\<close>

text \<open>\<^verbatim>\<open>buildMonthlyRevenue\<close> of the test file: the values of the months 1, 2, ... of a year.\<close>

fun buildMonthlyRevenueFrom :: "int \<Rightarrow> int \<Rightarrow> 'a list \<Rightarrow> 'a MonthlyRevenue list" where
  "buildMonthlyRevenueFrom year i [] = []"
| "buildMonthlyRevenueFrom year i (v # vs) =
     \<lparr>MonthlyRevenue.Year = year, Month = i + 1, Revenue = v\<rparr>
       # buildMonthlyRevenueFrom year (i + 1) vs"

definition buildMonthlyRevenue :: "int \<Rightarrow> 'a list \<Rightarrow> 'a MonthlyRevenue list" where
  "buildMonthlyRevenue year vs = buildMonthlyRevenueFrom year 0 vs"

text \<open>
  The input of \<^verbatim>\<open>TestBuildYearProjection\<close>, in exact arithmetic: twelve months of 2023,
  January and February of 2024, a manual rate for March and the disclosed first quarter.
\<close>

definition testGrouped :: "int \<rightharpoonup> real MonthlyRevenue list" where
  "testGrouped =
     [2023 \<mapsto> buildMonthlyRevenue 2023
                [300, 280, 320, 330, 340, 350, 360, 370, 380, 390, 400, 410],
      2024 \<mapsto> [\<lparr>MonthlyRevenue.Year = 2024, Month = 1, Revenue = 388\<rparr>,
               \<lparr>MonthlyRevenue.Year = 2024, Month = 2, Revenue = 388\<rparr>]]"

definition testManual :: "int \<rightharpoonup> real" where
  "testManual = [3 \<mapsto> 1 / 10]"

definition testAssumptions :: "real Assumptions" where
  "testAssumptions =
     \<lparr>Assumptions.GrossMargin = 173 / 1000, OperatingExpense = 38, NonOperatingIncome = 38,
      TaxRate = 2 / 10, SharesOutstanding = 80, PrevQuarterEPS = 0, PerMultiple = 23,
      CurrentPrice = 56, QuarterOverrides = None,
      ActualQuarters = Some [1 \<mapsto> \<lparr>QuarterActual.NetIncome = 1000, EPS = 125 / 100\<rparr>]\<rparr>"

definition testRun :: "real YearProjection \<times> error option" where
  "testRun = BuildYearProjection [1, 2] [2, 1] 2024 testGrouped testManual testAssumptions"

subsection \<open>Further inputs\<close>

text \<open>
  The reference revenue as the specification words it: the average of the two candidate
  revenues when both are positive, otherwise the one that is positive, otherwise 0.
\<close>

definition referenceOfCandidates :: "'a \<Rightarrow> 'a \<Rightarrow> 'a::{zero,one,plus,inverse,ord}" where
  "referenceOfCandidates revenueYoY revenueMoM =
     (if 0 < revenueYoY \<and> 0 < revenueMoM then (revenueYoY + revenueMoM) / (1 + 1)
      else if 0 < revenueYoY then revenueYoY
      else if 0 < revenueMoM then revenueMoM
      else 0)"

text \<open>
  January and February of 2023, January of 2024, and a manual rate of minus 100 percent for
  February 2024.
\<close>

definition referenceGrouped :: "int \<rightharpoonup> real MonthlyRevenue list" where
  "referenceGrouped =
     [2023 \<mapsto> buildMonthlyRevenue 2023 [100, 200], 2024 \<mapsto> buildMonthlyRevenue 2024 [100]]"

definition referenceManual :: "int \<rightharpoonup> real" where
  "referenceManual = [2 \<mapsto> - 1]"

definition referenceRun :: "real YearProjection \<times> error option" where
  "referenceRun =
     BuildYearProjection [1] [1] 2024 referenceGrouped referenceManual testAssumptions"

text \<open>
  December of 2022, and January and December of 2023: a year whose January and December are
  both reported.
\<close>

definition decemberGrouped :: "int \<rightharpoonup> real MonthlyRevenue list" where
  "decemberGrouped =
     [2022 \<mapsto> [\<lparr>MonthlyRevenue.Year = 2022, Month = 12, Revenue = 50\<rparr>],
      2023 \<mapsto> [\<lparr>MonthlyRevenue.Year = 2023, Month = 1, Revenue = 100\<rparr>,
               \<lparr>MonthlyRevenue.Year = 2023, Month = 12, Revenue = 200\<rparr>]]"

definition decemberRun :: "real YearProjection \<times> error option" where
  "decemberRun =
     BuildYearProjection [1, 12] [1, 12] 2023 decemberGrouped Map.empty testAssumptions"









subsection \<open>Numbers with NaN\<close>

text \<open>
  \<^verbatim>\<open>strconv.ParseFloat\<close> accepts the text \<^verbatim>\<open>NaN\<close>, and neither \<^verbatim>\<open>parseFloatString\<close>
  nor \<^verbatim>\<open>ParseRevenue\<close> rejects the result. \<open>nreal\<close> is exact arithmetic with that one
  value added: every operation with a NaN argument gives NaN and every comparison with a
  NaN argument is false, as for \<^verbatim>\<open>float64\<close>. The infinities are not modelled: a division
  by zero gives NaN here, and the run evaluated in \<open>nreal\<close> makes no division by zero.
\<close>

datatype nreal = Num real | NaN

instantiation nreal :: "{zero,one,plus,minus,times,inverse,ord}"
begin

definition zero_nreal :: nreal where
  "zero_nreal = Num 0"

definition one_nreal :: nreal where
  "one_nreal = Num 1"

definition plus_nreal :: "nreal \<Rightarrow> nreal \<Rightarrow> nreal" where
  "plus_nreal a b = (case (a, b) of (Num x, Num y) \<Rightarrow> Num (x + y) | _ \<Rightarrow> NaN)"

definition minus_nreal :: "nreal \<Rightarrow> nreal \<Rightarrow> nreal" where
  "minus_nreal a b = (case (a, b) of (Num x, Num y) \<Rightarrow> Num (x - y) | _ \<Rightarrow> NaN)"

definition times_nreal :: "nreal \<Rightarrow> nreal \<Rightarrow> nreal" where
  "times_nreal a b = (case (a, b) of (Num x, Num y) \<Rightarrow> Num (x * y) | _ \<Rightarrow> NaN)"

definition divide_nreal :: "nreal \<Rightarrow> nreal \<Rightarrow> nreal" where
  "divide_nreal a b =
     (case (a, b) of (Num x, Num y) \<Rightarrow> if y = 0 then NaN else Num (x / y) | _ \<Rightarrow> NaN)"

definition inverse_nreal :: "nreal \<Rightarrow> nreal" where
  "inverse_nreal a = (case a of Num x \<Rightarrow> if x = 0 then NaN else Num (1 / x) | NaN \<Rightarrow> NaN)"

definition less_eq_nreal :: "nreal \<Rightarrow> nreal \<Rightarrow> bool" where
  "less_eq_nreal a b \<longleftrightarrow> (case (a, b) of (Num x, Num y) \<Rightarrow> x \<le> y | _ \<Rightarrow> False)"

definition less_nreal :: "nreal \<Rightarrow> nreal \<Rightarrow> bool" where
  "less_nreal a b \<longleftrightarrow> (case (a, b) of (Num x, Num y) \<Rightarrow> x < y | _ \<Rightarrow> False)"

instance ..

end

text \<open>
  February of 2023 parsed from the text \<^verbatim>\<open>NaN\<close>, February of 2024 reported as 100, 80
  shares and a current price of 0.
\<close>

definition nanGrouped :: "int \<rightharpoonup> nreal MonthlyRevenue list" where
  "nanGrouped =
     [2023 \<mapsto> [\<lparr>MonthlyRevenue.Year = 2023, Month = 2, Revenue = NaN\<rparr>],
      2024 \<mapsto> [\<lparr>MonthlyRevenue.Year = 2024, Month = 2, Revenue = Num 100\<rparr>]]"

definition nanAssumptions :: "nreal Assumptions" where
  "nanAssumptions =
     \<lparr>Assumptions.GrossMargin = Num (1 / 4), OperatingExpense = Num 38,
      NonOperatingIncome = Num 38, TaxRate = Num (1 / 4), SharesOutstanding = Num 80,
      PrevQuarterEPS = Num 0, PerMultiple = Num 23, CurrentPrice = Num 0,
      QuarterOverrides = None, ActualQuarters = None\<rparr>"

definition nanRun :: "nreal YearProjection \<times> error option" where
  "nanRun = BuildYearProjection [2] [2] 2024 nanGrouped Map.empty nanAssumptions"

subsection \<open>Binary64 arithmetic\<close>

text \<open>
  The finite values of Go's \<^verbatim>\<open>float64\<close> (IEEE 754 binary64) are the rationals \<open>m * 2 ^ e\<close>
  with \<open>\<bar>m\<bar> < 2 ^ 53\<close>. An arithmetic operation returns the exact result rounded to 53
  significant bits, to the nearest such value and to the one with an even \<open>m\<close> when two are
  equally near. This model has the finite values only: overflow, gradual underflow, the
  infinities, NaN, the sign of zero and division by zero are outside it, and it is used
  below only on inputs on which none of them occurs.
\<close>

definition pow2 :: "int \<Rightarrow> rat" where
  "pow2 e = (if 0 \<le> e then 2 ^ nat e else 1 / 2 ^ nat (- e))"

text \<open>The \<open>e\<close> with \<open>2 ^ e \<le> \<bar>x\<bar> < 2 ^ (e + 1)\<close>, for \<open>x \<noteq> 0\<close>.\<close>

definition exponent :: "rat \<Rightarrow> int" where
  "exponent x =
     (if 1 \<le> \<bar>x\<bar> then bitlen \<lfloor>\<bar>x\<bar>\<rfloor> - 1 else - bitlen (\<lceil>1 / \<bar>x\<bar>\<rceil> - 1))"

text \<open>The nearest integer, the even one of the two when \<open>x\<close> lies half way.\<close>

definition roundEven :: "rat \<Rightarrow> int" where
  "roundEven x =
     (let n = \<lfloor>x\<rfloor>; d = x - of_int n in
      if d < 1 / 2 then n else if 1 / 2 < d then n + 1 else if even n then n else n + 1)"

definition round64 :: "rat \<Rightarrow> rat" where
  "round64 x =
     (if x = 0 then 0
      else let e = exponent x - 52 in of_int (roundEven (x / pow2 e)) * pow2 e)"

datatype f64 = F64 (valueOf: rat)

instantiation f64 :: "{zero,one,plus,minus,times,inverse,ord}"
begin

definition zero_f64 :: f64 where
  "zero_f64 = F64 0"

definition one_f64 :: f64 where
  "one_f64 = F64 1"

definition plus_f64 :: "f64 \<Rightarrow> f64 \<Rightarrow> f64" where
  "plus_f64 a b = F64 (round64 (valueOf a + valueOf b))"

definition minus_f64 :: "f64 \<Rightarrow> f64 \<Rightarrow> f64" where
  "minus_f64 a b = F64 (round64 (valueOf a - valueOf b))"

definition times_f64 :: "f64 \<Rightarrow> f64 \<Rightarrow> f64" where
  "times_f64 a b = F64 (round64 (valueOf a * valueOf b))"

definition divide_f64 :: "f64 \<Rightarrow> f64 \<Rightarrow> f64" where
  "divide_f64 a b = F64 (round64 (valueOf a / valueOf b))"

definition inverse_f64 :: "f64 \<Rightarrow> f64" where
  "inverse_f64 a = F64 (round64 (1 / valueOf a))"

definition less_eq_f64 :: "f64 \<Rightarrow> f64 \<Rightarrow> bool" where
  "less_eq_f64 a b \<longleftrightarrow> valueOf a \<le> valueOf b"

definition less_f64 :: "f64 \<Rightarrow> f64 \<Rightarrow> bool" where
  "less_f64 a b \<longleftrightarrow> valueOf a < valueOf b"

instance ..

end

text \<open>
  Three months of 2023 at 100 and of 2024 at 110, 120 and 130: the three rates are the
  binary64 numbers nearest to 0.1, 0.2 and 0.3.
\<close>

definition orderGrouped :: "int \<rightharpoonup> f64 MonthlyRevenue list" where
  "orderGrouped =
     [2023 \<mapsto> buildMonthlyRevenue 2023 [F64 100, F64 100, F64 100],
      2024 \<mapsto> buildMonthlyRevenue 2024 [F64 110, F64 120, F64 130]]"

definition orderAssumptions :: "f64 Assumptions" where
  "orderAssumptions =
     \<lparr>Assumptions.GrossMargin = F64 (1 / 4), OperatingExpense = F64 38,
      NonOperatingIncome = F64 38, TaxRate = F64 (1 / 4), SharesOutstanding = F64 80,
      PrevQuarterEPS = F64 0, PerMultiple = F64 23, CurrentPrice = F64 56,
      QuarterOverrides = None, ActualQuarters = None\<rparr>"

section \<open>Properties\<close>

subsection \<open>Loops and sorting\<close>

declare forLoop.simps [simp del]

lemma forLoop_enter: "i \<le> hi \<Longrightarrow> forLoop i hi body s = forLoop (i + 1) hi body (body i s)"
  by (subst forLoop.simps) simp

lemma forLoop_exit: "hi < i \<Longrightarrow> forLoop i hi body s = s"
  by (subst forLoop.simps) simp

lemma forLoop_last: "i \<le> hi \<Longrightarrow> forLoop i hi body s = body hi (forLoop i (hi - 1) body s)"
proof (induction i hi body s rule: forLoop.induct)
  case (1 i hi body s)
  show ?case
  proof (cases "i = hi")
    case True
    then show ?thesis by (simp add: forLoop_enter forLoop_exit)
  next
    case False
    with "1.prems" have lt: "i + 1 \<le> hi" "i \<le> hi - 1" by simp_all
    from "1.IH" [OF "1.prems" lt(1)] show ?thesis
      using "1.prems" lt by (simp add: forLoop_enter)
  qed
qed

lemma length_sortInsert: "length (sortInsert lt x xs) = Suc (length xs)"
  by (induction xs) simp_all

lemma length_sortSlice: "length (sortSlice lt xs) = length xs"
  by (induction xs) (simp_all add: sortSlice_def length_sortInsert)

lemma set_sortInsert: "set (sortInsert lt x xs) = insert x (set xs)"
  by (induction xs) auto

lemma set_sortSlice: "set (sortSlice lt xs) = set xs"
  by (induction xs) (simp_all add: sortSlice_def set_sortInsert)

lemma sortSlice_Cons: "sortSlice lt (x # xs) = sortInsert lt x (sortSlice lt xs)"
  by (simp add: sortSlice_def)

text \<open>A slice that is in order already is left as it is.\<close>

lemma sortSlice_ordered: "sorted_wrt (\<lambda>a b. \<not> lt b a) xs \<Longrightarrow> sortSlice lt xs = xs"
proof (induction xs)
  case Nil
  then show ?case by (simp add: sortSlice_def)
next
  case (Cons x xs)
  then have "sortSlice lt xs = xs" by simp
  moreover from Cons.prems have "sortInsert lt x xs = x # xs" by (cases xs) simp_all
  ultimately show ?case by (simp add: sortSlice_Cons)
qed

lemma SortMonthlyRevenues_Nil: "SortMonthlyRevenues rs = [] \<longleftrightarrow> rs = []"
  using length_sortSlice [of lessRecord rs] by (auto simp: SortMonthlyRevenues_def sortSlice_def)

subsection \<open>The two errors\<close>

text \<open>
  Claim C7, as the code has it. With \<^verbatim>\<open>SharesOutstanding <= 0\<close> the engine returns the
  zero-value projection and an error, whatever the other arguments are. The error is the
  invalid-assumption error when the requested year has at least one revenue record; the test
  for an empty year stands first (line 92), so a year without records gives the
  missing-year-data error instead.
\<close>

theorem sharesOutstanding_error:
  fixes asm :: "('a::{zero,one,plus,minus,times,inverse,ord}) Assumptions"
  assumes "SharesOutstanding asm \<le> 0"
  shows "BuildYearProjection order1 order2 year grouped manualYoY asm =
           (zeroProjection,
            Some (if recordsOf grouped year = [] then MissingYearData year
                  else InvalidSharesOutstanding))"
  using assms by (simp add: BuildYearProjection_def SortMonthlyRevenues_Nil)

text \<open>
  The input of \<^verbatim>\<open>TestBuildYearProjectionSharesError\<close>: one record for 2024 and no shares.
\<close>

theorem sharesOutstanding_error_witness:
  "SharesOutstanding
     \<lparr>Assumptions.GrossMargin = 0, OperatingExpense = 0, NonOperatingIncome = 0, TaxRate = 0,
      SharesOutstanding = (0::real), PrevQuarterEPS = 0, PerMultiple = 0, CurrentPrice = 0,
      QuarterOverrides = None, ActualQuarters = None\<rparr> \<le> 0 \<and>
   BuildYearProjection [1] [1] 2024
     [2024 \<mapsto> [\<lparr>MonthlyRevenue.Year = 2024, Month = 1, Revenue = 200\<rparr>]] Map.empty
     \<lparr>Assumptions.GrossMargin = 0, OperatingExpense = 0, NonOperatingIncome = 0, TaxRate = 0,
      SharesOutstanding = (0::real), PrevQuarterEPS = 0, PerMultiple = 0, CurrentPrice = 0,
      QuarterOverrides = None, ActualQuarters = None\<rparr> =
   (zeroProjection, Some InvalidSharesOutstanding)"
  using sharesOutstanding_error
    [of "\<lparr>Assumptions.GrossMargin = 0, OperatingExpense = 0, NonOperatingIncome = 0,
          TaxRate = 0, SharesOutstanding = (0::real), PrevQuarterEPS = 0, PerMultiple = 0,
          CurrentPrice = 0, QuarterOverrides = None, ActualQuarters = None\<rparr>"
        "[1]" "[1]" 2024
        "[2024 \<mapsto> [\<lparr>MonthlyRevenue.Year = 2024, Month = 1, Revenue = 200\<rparr>]]" Map.empty]
  by (simp add: recordsOf_def)

text \<open>
  Claim C7 as it is written fails where the year has no record: no shares and no data give
  the missing-year-data error, not the invalid-assumption error.
\<close>

theorem sharesOutstanding_error_counterexample:
  "SharesOutstanding
     \<lparr>Assumptions.GrossMargin = 0, OperatingExpense = 0, NonOperatingIncome = 0, TaxRate = 0,
      SharesOutstanding = (0::real), PrevQuarterEPS = 0, PerMultiple = 0, CurrentPrice = 0,
      QuarterOverrides = None, ActualQuarters = None\<rparr> \<le> 0 \<and>
   BuildYearProjection [] [] 2024 Map.empty Map.empty
     \<lparr>Assumptions.GrossMargin = 0, OperatingExpense = 0, NonOperatingIncome = 0, TaxRate = 0,
      SharesOutstanding = (0::real), PrevQuarterEPS = 0, PerMultiple = 0, CurrentPrice = 0,
      QuarterOverrides = None, ActualQuarters = None\<rparr> =
   (zeroProjection, Some (MissingYearData 2024)) \<and>
   MissingYearData 2024 \<noteq> InvalidSharesOutstanding"
  by (simp add: BuildYearProjection_def SortMonthlyRevenues_def sortSlice_def recordsOf_def)

subsection \<open>Quarters\<close>

lemma quarterLoop:
  "forLoop 1 4 (quarterBody asm months) ([], e0) =
     (map (computeQuarter asm months) [1, 2, 3, 4],
      e0 + QuarterBreakdown.EPS (computeQuarter asm months 1)
         + QuarterBreakdown.EPS (computeQuarter asm months 2)
         + QuarterBreakdown.EPS (computeQuarter asm months 3)
         + QuarterBreakdown.EPS (computeQuarter asm months 4))"
  by (simp add: forLoop_enter forLoop_exit quarterBody_def Let_def)

lemma applyActual_Quarter: "Quarter (applyActual asm q quarter) = Quarter quarter"
  by (simp add: applyActual_def split: option.splits)

lemma computeQuarter_Quarter: "Quarter (computeQuarter asm months q) = q"
  by (simp add: computeQuarter_def Let_def split_def applyActual_Quarter)

subsection \<open>Months\<close>

lemma monthBody_months:
  "fst (monthBody year monthMap prevMap actualYoY actualMoM avgYoY avgMoM manualYoY m st) =
     fst st @
     [case monthMap m of
        Some r \<Rightarrow> actualMonth year monthMap prevMap actualYoY actualMoM m r (snd (snd st))
      | None \<Rightarrow> missingMonth year prevMap avgYoY avgMoM manualYoY m (snd (snd st))]"
  by (simp add: monthBody_def Let_def split: prod.splits option.splits)

lemma monthBody_lastRevenue:
  "snd (snd (monthBody year monthMap prevMap actualYoY actualMoM avgYoY avgMoM manualYoY m st)) =
     (case monthMap m of
        Some r \<Rightarrow> MonthlyRevenue.Revenue r
      | None \<Rightarrow>
          let revenue = MonthEstimate.Revenue
                (missingMonth year prevMap avgYoY avgMoM manualYoY m (snd (snd st)))
          in if 0 < revenue then revenue else snd (snd st))"
  by (simp add: monthBody_def Let_def split: prod.splits option.splits)

lemma actualMonth_Month [simp]:
  "MonthEstimate.Month (actualMonth year monthMap prevMap actualYoY actualMoM m r l) = m"
  by (simp add: actualMonth_def Let_def)

lemma missingMonth_Month [simp]:
  "MonthEstimate.Month (missingMonth year prevMap avgYoY avgMoM manualYoY m l) = m"
  by (simp add: missingMonth_def Let_def split_def)

text \<open>The loop over the months \<open>1\<close> to \<open>n\<close>, for any body that appends one estimate of month \<open>m\<close>.\<close>

lemma forLoop_Suc:
  "forLoop 1 (int (Suc n)) body s = body (int (Suc n)) (forLoop 1 (int n) body s)"
  using forLoop_last [of 1 "int (Suc n)" body s] by simp


lemma forLoop_zero: "forLoop 1 (int 0) body s = s"
  by (simp add: forLoop_exit)

lemma loop_length:
  assumes step: "\<And>m st. fst (B m st) = fst st @ [E m (snd (snd st))]"
  shows "length (fst (forLoop 1 (int n) B ([], t0, l0))) = n"
proof (induction n)
  case 0
  show ?case by (simp add: forLoop_exit)
next
  case (Suc n)
  then show ?case by (simp only: forLoop_Suc step) simp
qed

lemma loop_nth:
  assumes step: "\<And>m st. fst (B m st) = fst st @ [E m (snd (snd st))]"
  shows "j < n \<Longrightarrow>
    fst (forLoop 1 (int n) B ([], t0, l0)) ! j =
      E (int j + 1) (snd (snd (forLoop 1 (int j) B ([], t0, l0))))"
proof (induction n)
  case 0
  then show ?case by simp
next
  case (Suc n)
  have len: "length (fst (forLoop 1 (int n) B ([], t0, l0))) = n"
    using step by (rule loop_length)
  show ?case
  proof (cases "j = n")
    case True
    then show ?thesis
      by (simp only: forLoop_Suc step) (simp add: len nth_append add.commute)
  next
    case False
    with Suc.prems have "j < n" by simp
    with Suc.IH show ?thesis
      by (simp only: forLoop_Suc step) (simp add: len nth_append)
  qed
qed

lemma monthLoop_unfold:
  "monthLoop order1 order2 year monthMap prevMap manualYoY k =
     forLoop 1 k
       (monthBody year monthMap prevMap
          (snd (snd (yoyRates monthMap prevMap order1)))
          (snd (snd (momRates monthMap prevMap order2)))
          (average (fst (yoyRates monthMap prevMap order1))
             (fst (snd (yoyRates monthMap prevMap order1))))
          (average (fst (momRates monthMap prevMap order2))
             (fst (snd (momRates monthMap prevMap order2))))
          manualYoY)
       ([], 0, 0)"
  by (simp add: monthLoop_def Let_def split_def)

lemma project_AvgYoY:
  "AvgYoY (project order1 order2 year monthMap prevMap manualYoY asm) =
     average (fst (yoyRates monthMap prevMap order1))
       (fst (snd (yoyRates monthMap prevMap order1)))"
  by (simp add: project_def Let_def split_def)

lemma project_AvgMoM:
  "AvgMoM (project order1 order2 year monthMap prevMap manualYoY asm) =
     average (fst (momRates monthMap prevMap order2))
       (fst (snd (momRates monthMap prevMap order2)))"
  by (simp add: project_def Let_def split_def)

lemma project_Months_sort:
  "Months (project order1 order2 year monthMap prevMap manualYoY asm) =
     sortSlice (\<lambda>a b. MonthEstimate.Month a < MonthEstimate.Month b)
       (fst (monthLoop order1 order2 year monthMap prevMap manualYoY 12))"
  by (simp add: project_def monthLoop_unfold Let_def split_def)

lemma project_Quarters:
  "Quarters (project order1 order2 year monthMap prevMap manualYoY asm) =
     map (computeQuarter asm (Months (project order1 order2 year monthMap prevMap manualYoY asm)))
       [1, 2, 3, 4]"
  by (simp add: project_def Let_def split_def quarterLoop)

lemma monthBody_loop_length:
  "length (fst (forLoop 1 (int n)
      (monthBody year monthMap prevMap actualYoY actualMoM avgYoY avgMoM manualYoY)
      ([], 0, 0))) = n"
  by (rule loop_length
      [where B = "monthBody year monthMap prevMap actualYoY actualMoM avgYoY avgMoM manualYoY"
         and E = "\<lambda>m l. case monthMap m of
                    Some r \<Rightarrow> actualMonth year monthMap prevMap actualYoY actualMoM m r l
                  | None \<Rightarrow> missingMonth year prevMap avgYoY avgMoM manualYoY m l"])
    (rule monthBody_months)

lemma monthBody_loop_nth:
  assumes "j < n"
  shows "fst (forLoop 1 (int n)
      (monthBody year monthMap prevMap actualYoY actualMoM avgYoY avgMoM manualYoY)
      ([], 0, 0)) ! j =
    (let lastRevenue = snd (snd (forLoop 1 (int j)
           (monthBody year monthMap prevMap actualYoY actualMoM avgYoY avgMoM manualYoY)
           ([], 0, 0)))
     in case monthMap (int j + 1) of
          Some r \<Rightarrow>
            actualMonth year monthMap prevMap actualYoY actualMoM (int j + 1) r lastRevenue
        | None \<Rightarrow> missingMonth year prevMap avgYoY avgMoM manualYoY (int j + 1) lastRevenue)"
  unfolding Let_def
  by (rule loop_nth
      [where B = "monthBody year monthMap prevMap actualYoY actualMoM avgYoY avgMoM manualYoY"
         and E = "\<lambda>m l. case monthMap m of
                    Some r \<Rightarrow> actualMonth year monthMap prevMap actualYoY actualMoM m r l
                  | None \<Rightarrow> missingMonth year prevMap avgYoY avgMoM manualYoY m l"])
    (rule monthBody_months, rule assms)

lemma monthLoop_length:
  "length (fst (monthLoop order1 order2 year monthMap prevMap manualYoY (int n))) = n"
  unfolding monthLoop_unfold by (rule monthBody_loop_length)

lemma monthLoop_nth:
  assumes "j < n"
  shows "fst (monthLoop order1 order2 year monthMap prevMap manualYoY (int n)) ! j =
    (case monthMap (int j + 1) of
       Some r \<Rightarrow>
         actualMonth year monthMap prevMap
           (snd (snd (yoyRates monthMap prevMap order1)))
           (snd (snd (momRates monthMap prevMap order2))) (int j + 1) r
           (lastRevenueAt order1 order2 year monthMap prevMap manualYoY (int j + 1))
     | None \<Rightarrow>
         missingMonth year prevMap
           (average (fst (yoyRates monthMap prevMap order1))
              (fst (snd (yoyRates monthMap prevMap order1))))
           (average (fst (momRates monthMap prevMap order2))
              (fst (snd (momRates monthMap prevMap order2))))
           manualYoY (int j + 1)
           (lastRevenueAt order1 order2 year monthMap prevMap manualYoY (int j + 1)))"
proof -
  have "int j + 1 - 1 = int j" by simp
  then show ?thesis
    unfolding lastRevenueAt_def
    by (simp only: monthLoop_unfold monthBody_loop_nth [OF assms] Let_def)
qed

lemma monthLoop_Month:
  "j < n \<Longrightarrow>
   MonthEstimate.Month (fst (monthLoop order1 order2 year monthMap prevMap manualYoY (int n)) ! j) =
     int j + 1"
  by (simp add: monthLoop_nth split: option.splits)

lemma monthLoop_Months:
  "map MonthEstimate.Month (fst (monthLoop order1 order2 year monthMap prevMap manualYoY (int n))) =
     map (\<lambda>j. int j + 1) [0..<n]"
  by (rule nth_equalityI) (simp_all add: monthLoop_length monthLoop_Month)


lemma monthLoop_Months12:
  "map MonthEstimate.Month (fst (monthLoop order1 order2 year monthMap prevMap manualYoY 12)) =
     [1, 2, 3, 4, 5, 6, 7, 8, 9, 10, 11, 12]"
  using monthLoop_Months [of order1 order2 year monthMap prevMap manualYoY 12]
  by (simp add: upt_rec)

lemma sorted_by_Month:
  assumes "map MonthEstimate.Month es = [1, 2, 3, 4, 5, 6, 7, 8, 9, 10, 11, 12]"
  shows "sorted_wrt (\<lambda>a b. \<not> MonthEstimate.Month b < MonthEstimate.Month a) es"
proof -
  have "sorted_wrt (\<lambda>a b. \<not> b < a) (map MonthEstimate.Month es)"
    unfolding assms by simp
  then show ?thesis by (simp add: sorted_wrt_map)
qed

lemma project_Months:
  "Months (project order1 order2 year monthMap prevMap manualYoY asm) =
     fst (monthLoop order1 order2 year monthMap prevMap manualYoY 12)"
  unfolding project_Months_sort
  by (rule sortSlice_ordered) (rule sorted_by_Month, rule monthLoop_Months12)

lemma BuildYearProjection_success:
  "BuildYearProjection order1 order2 year grouped manualYoY asm = (p, None) \<longleftrightarrow>
     recordsOf grouped year \<noteq> [] \<and> \<not> SharesOutstanding asm \<le> 0 \<and>
     p = project order1 order2 year (monthMapOf year grouped) (prevMapOf year grouped)
           manualYoY asm"
  by (auto simp: BuildYearProjection_def SortMonthlyRevenues_Nil)

text \<open>
  Claim C3. Whenever \<^verbatim>\<open>BuildYearProjection\<close> returns no error, \<^verbatim>\<open>Months\<close> has twelve
  elements, for the months 1 to 12 in this order, and \<^verbatim>\<open>Quarters\<close> has four, for the quarters
  1 to 4 in this order, whatever months were reported.
\<close>

theorem months_and_quarters_shape:
  fixes asm :: "('a::{zero,one,plus,minus,times,inverse,ord}) Assumptions"
  assumes "BuildYearProjection order1 order2 year grouped manualYoY asm = (p, None)"
  shows "length (Months p) = 12 \<and>
         map MonthEstimate.Month (Months p) = [1, 2, 3, 4, 5, 6, 7, 8, 9, 10, 11, 12] \<and>
         length (Quarters p) = 4 \<and>
         map Quarter (Quarters p) = [1, 2, 3, 4]"
proof -
  from assms have p: "p = project order1 order2 year (monthMapOf year grouped)
      (prevMapOf year grouped) manualYoY asm"
    by (simp add: BuildYearProjection_success)
  have "length (Months p) = 12"
    using monthLoop_length [of order1 order2 year "monthMapOf year grouped"
        "prevMapOf year grouped" manualYoY 12]
    by (simp add: p project_Months)
  moreover have "map MonthEstimate.Month (Months p) = [1, 2, 3, 4, 5, 6, 7, 8, 9, 10, 11, 12]"
    by (simp only: p project_Months monthLoop_Months12)
  moreover have "length (Quarters p) = 4 \<and> map Quarter (Quarters p) = [1, 2, 3, 4]"
    by (simp add: p project_Quarters computeQuarter_Quarter)
  ultimately show ?thesis by simp
qed

text \<open>The run of the test succeeds; its first quarter has an estimated month, March.\<close>

lemma testRun_success: "testRun = (fst testRun, None)"
  by (simp add: prod_eq_iff testRun_def BuildYearProjection_def SortMonthlyRevenues_Nil
      recordsOf_def testGrouped_def testAssumptions_def)

theorem months_and_quarters_shape_witness:
  "snd testRun = None \<and>
   length (Months (fst testRun)) = 12 \<and>
   map MonthEstimate.Month (Months (fst testRun)) = [1, 2, 3, 4, 5, 6, 7, 8, 9, 10, 11, 12] \<and>
   length (Quarters (fst testRun)) = 4 \<and>
   map Quarter (Quarters (fst testRun)) = [1, 2, 3, 4]"
proof -
  have "snd testRun = None"
    by (subst testRun_success) simp
  moreover note months_and_quarters_shape [OF testRun_success [unfolded testRun_def]]
  ultimately show ?thesis by (simp add: testRun_def)
qed

lemma applyActual_disclosed:
  assumes "ActualQuarters asm = Some actuals" and "actuals q = Some actual"
    and "0 < QuarterActual.NetIncome actual"
  shows "applyActual asm q quarter =
    quarter\<lparr>QuarterBreakdown.NetIncome := QuarterActual.NetIncome actual,
            QuarterBreakdown.EPS :=
              (if 0 < QuarterActual.EPS actual then QuarterActual.EPS actual
               else QuarterActual.NetIncome actual / SharesOutstanding asm),
            QuarterBreakdown.IsActual := True\<rparr>"
  using assms by (simp add: applyActual_def)

lemma computeQuarter_disclosed:
  assumes "ActualQuarters asm = Some actuals" and "actuals q = Some actual"
    and "0 < QuarterActual.NetIncome actual"
  shows "QuarterBreakdown.NetIncome (computeQuarter asm months q) = QuarterActual.NetIncome actual"
    and "QuarterBreakdown.EPS (computeQuarter asm months q) =
           (if 0 < QuarterActual.EPS actual then QuarterActual.EPS actual
            else QuarterActual.NetIncome actual / SharesOutstanding asm)"
    and "QuarterBreakdown.IsActual (computeQuarter asm months q)"
  by (simp_all add: computeQuarter_def Let_def split_def applyActual_disclosed [OF assms])

text \<open>
  Claim C4. When \<^verbatim>\<open>ActualQuarters\<close> has an entry for a quarter \<open>q\<close> of 1 to 4 with a
  positive net income, \<^verbatim>\<open>Quarters[q-1]\<close> carries the disclosed net income, the disclosed EPS
  when that is positive and otherwise the disclosed net income divided by the shares, and is
  marked actual, whatever the months of the quarter are.
\<close>

theorem disclosed_quarter_overrides:
  fixes asm :: "('a::{zero,one,plus,minus,times,inverse,ord}) Assumptions"
  assumes "BuildYearProjection order1 order2 year grouped manualYoY asm = (p, None)"
    and "ActualQuarters asm = Some actuals" and "actuals q = Some actual"
    and "0 < QuarterActual.NetIncome actual"
    and "1 \<le> q" and "q \<le> 4"
  shows "Quarter (Quarters p ! nat (q - 1)) = q \<and>
         QuarterBreakdown.NetIncome (Quarters p ! nat (q - 1)) = QuarterActual.NetIncome actual \<and>
         QuarterBreakdown.EPS (Quarters p ! nat (q - 1)) =
           (if 0 < QuarterActual.EPS actual then QuarterActual.EPS actual
            else QuarterActual.NetIncome actual / SharesOutstanding asm) \<and>
         QuarterBreakdown.IsActual (Quarters p ! nat (q - 1))"
proof -
  from assms(1) have p: "p = project order1 order2 year (monthMapOf year grouped)
      (prevMapOf year grouped) manualYoY asm"
    by (simp add: BuildYearProjection_success)
  from assms(5,6) have "q = 1 \<or> q = 2 \<or> q = 3 \<or> q = 4" by arith
  then have "Quarters p ! nat (q - 1) = computeQuarter asm (Months p) q"
    by (auto simp: p project_Quarters)
  then show ?thesis
    by (simp add: computeQuarter_Quarter computeQuarter_disclosed [OF assms(2-4)])
qed

theorem disclosed_quarter_overrides_witness:
  "snd testRun = None \<and>
   ActualQuarters testAssumptions = Some [1 \<mapsto> \<lparr>QuarterActual.NetIncome = 1000, EPS = 125 / 100\<rparr>] \<and>
   Quarter (Quarters (fst testRun) ! 0) = 1 \<and>
   QuarterBreakdown.NetIncome (Quarters (fst testRun) ! 0) = 1000 \<and>
   QuarterBreakdown.EPS (Quarters (fst testRun) ! 0) = 125 / 100 \<and>
   QuarterBreakdown.IsActual (Quarters (fst testRun) ! 0)"
proof -
  have "snd testRun = None"
    by (subst testRun_success) simp
  moreover have a: "ActualQuarters testAssumptions =
      Some [1 \<mapsto> \<lparr>QuarterActual.NetIncome = 1000, EPS = 125 / 100\<rparr>]"
    by (simp add: testAssumptions_def)
  moreover note disclosed_quarter_overrides
    [OF testRun_success [unfolded testRun_def] a,
      of 1 "\<lparr>QuarterActual.NetIncome = 1000, EPS = 125 / 100\<rparr>"]
  ultimately show ?thesis by (simp add: testRun_def)
qed


subsection \<open>Reported months\<close>

lemma buildMonthMap_Some:
  "buildMonthMap year rs m0 k = Some x \<Longrightarrow>
     (x \<in> set rs \<and> MonthlyRevenue.Year x = year \<and> MonthlyRevenue.Month x = k) \<or> m0 k = Some x"
proof (induction rs arbitrary: m0)
  case Nil
  then show ?case by simp
next
  case (Cons a rs)
  show ?case
  proof (cases "MonthlyRevenue.Year a = year")
    case False
    with Cons.prems have "buildMonthMap year rs m0 k = Some x" by simp
    from Cons.IH [OF this] show ?thesis by auto
  next
    case True
    with Cons.prems have "buildMonthMap year rs (m0(MonthlyRevenue.Month a \<mapsto> a)) k = Some x"
      by simp
    from Cons.IH [OF this] True show ?thesis by (auto split: if_splits)
  qed
qed

lemma buildMonthMap_None:
  "buildMonthMap year rs m0 k = None \<longleftrightarrow>
     m0 k = None \<and> (\<forall>r\<in>set rs. MonthlyRevenue.Year r = year \<longrightarrow> MonthlyRevenue.Month r \<noteq> k)"
  by (induction rs arbitrary: m0) (auto split: if_splits)

lemma monthMapOf_None:
  "monthMapOf year grouped k = None \<longleftrightarrow>
     (\<forall>r\<in>set (recordsOf grouped year).
        MonthlyRevenue.Year r = year \<longrightarrow> MonthlyRevenue.Month r \<noteq> k)"
  by (simp add: monthMapOf_def buildMonthMap_None SortMonthlyRevenues_def set_sortSlice)

lemma monthMapOf_Some:
  assumes "monthMapOf year grouped k = Some x"
  shows "x \<in> set (recordsOf grouped year) \<and> MonthlyRevenue.Year x = year \<and>
         MonthlyRevenue.Month x = k"
  using buildMonthMap_Some [OF assms [unfolded monthMapOf_def]]
  by (simp add: SortMonthlyRevenues_def set_sortSlice)

lemma monthMapOf_unique:
  assumes "r \<in> set (recordsOf grouped year)" and "MonthlyRevenue.Year r = year"
    and "\<forall>r'\<in>set (recordsOf grouped year).
           MonthlyRevenue.Year r' = year \<and> MonthlyRevenue.Month r' = MonthlyRevenue.Month r
             \<longrightarrow> r' = r"
  shows "monthMapOf year grouped (MonthlyRevenue.Month r) = Some r"
proof (cases "monthMapOf year grouped (MonthlyRevenue.Month r)")
  case None
  with assms(1,2) show ?thesis by (auto simp: monthMapOf_None)
next
  case (Some x)
  from monthMapOf_Some [OF Some] assms(3) have "x = r" by blast
  with Some show ?thesis by simp
qed

lemma project_month:
  assumes "1 \<le> m" and "m \<le> 12"
  shows "Months (project order1 order2 year monthMap prevMap manualYoY asm) ! nat (m - 1) =
    (case monthMap m of
       Some r \<Rightarrow>
         actualMonth year monthMap prevMap
           (snd (snd (yoyRates monthMap prevMap order1)))
           (snd (snd (momRates monthMap prevMap order2))) m r
           (lastRevenueAt order1 order2 year monthMap prevMap manualYoY m)
     | None \<Rightarrow>
         missingMonth year prevMap
           (AvgYoY (project order1 order2 year monthMap prevMap manualYoY asm))
           (AvgMoM (project order1 order2 year monthMap prevMap manualYoY asm))
           manualYoY m
           (lastRevenueAt order1 order2 year monthMap prevMap manualYoY m))"
proof -
  from assms have "nat (m - 1) < 12" and m: "int (nat (m - 1)) + 1 = m" by simp_all
  from monthLoop_nth [OF this(1), of order1 order2 year monthMap prevMap manualYoY]
  show ?thesis
    unfolding project_Months project_AvgYoY project_AvgMoM m by simp
qed

text \<open>
  Claim C8. A record of the requested year for a month of 1 to 12, the only record of its
  year and month, gives an estimate marked actual whose revenue is the reported revenue.
\<close>

theorem actual_month_reported:
  fixes asm :: "('a::{zero,one,plus,minus,times,inverse,ord}) Assumptions"
  assumes "BuildYearProjection order1 order2 year grouped manualYoY asm = (p, None)"
    and "r \<in> set (recordsOf grouped year)" and "MonthlyRevenue.Year r = year"
    and "1 \<le> MonthlyRevenue.Month r" and "MonthlyRevenue.Month r \<le> 12"
    and "\<forall>r'\<in>set (recordsOf grouped year).
           MonthlyRevenue.Year r' = year \<and> MonthlyRevenue.Month r' = MonthlyRevenue.Month r
             \<longrightarrow> r' = r"
  shows "MonthEstimate.Month (Months p ! nat (MonthlyRevenue.Month r - 1)) = MonthlyRevenue.Month r \<and>
         MonthEstimate.IsActual (Months p ! nat (MonthlyRevenue.Month r - 1)) \<and>
         MonthEstimate.Revenue (Months p ! nat (MonthlyRevenue.Month r - 1)) = MonthlyRevenue.Revenue r"
proof -
  from assms(1) have p: "p = project order1 order2 year (monthMapOf year grouped)
      (prevMapOf year grouped) manualYoY asm"
    by (simp add: BuildYearProjection_success)
  have "monthMapOf year grouped (MonthlyRevenue.Month r) = Some r"
    using assms(2,3,6) by (rule monthMapOf_unique)
  then show ?thesis
    by (simp add: p project_month [OF assms(4,5)] actualMonth_def Let_def)
qed

theorem actual_month_reported_witness:
  "snd testRun = None \<and>
   recordsOf testGrouped 2024 =
     [\<lparr>MonthlyRevenue.Year = 2024, Month = 1, Revenue = 388\<rparr>,
      \<lparr>MonthlyRevenue.Year = 2024, Month = 2, Revenue = 388\<rparr>] \<and>
   MonthEstimate.Month (Months (fst testRun) ! 1) = 2 \<and>
   MonthEstimate.IsActual (Months (fst testRun) ! 1) \<and>
   MonthEstimate.Revenue (Months (fst testRun) ! 1) = 388"
proof -
  have s: "snd testRun = None"
    by (subst testRun_success) simp
  have r: "\<lparr>MonthlyRevenue.Year = 2024, Month = 2, Revenue = 388\<rparr>
      \<in> set (recordsOf testGrouped 2024)"
    by (simp add: recordsOf_def testGrouped_def)
  have u: "recordsOf testGrouped 2024 =
      [\<lparr>MonthlyRevenue.Year = 2024, Month = 1, Revenue = 388\<rparr>,
       \<lparr>MonthlyRevenue.Year = 2024, Month = 2, Revenue = 388\<rparr>]"
    by (simp add: recordsOf_def testGrouped_def)
  have u': "\<forall>r'\<in>set (recordsOf testGrouped 2024).
      MonthlyRevenue.Year r' = 2024 \<and>
      MonthlyRevenue.Month r' =
        MonthlyRevenue.Month \<lparr>MonthlyRevenue.Year = 2024, Month = 2, Revenue = 388::real\<rparr>
        \<longrightarrow> r' = \<lparr>MonthlyRevenue.Year = 2024, Month = 2, Revenue = 388\<rparr>"
    by (simp add: recordsOf_def testGrouped_def)
  have c: "MonthEstimate.Month (Months (fst testRun) ! 1) = 2 \<and>
      MonthEstimate.IsActual (Months (fst testRun) ! 1) \<and>
      MonthEstimate.Revenue (Months (fst testRun) ! 1) = 388"
    using actual_month_reported [OF testRun_success [unfolded testRun_def] r _ _ _ u']
    by (simp add: testRun_def)
  from s u c show ?thesis by blast
qed

subsection \<open>Months without a record\<close>

lemma lastRevenueAt_first:
  "lastRevenueAt order1 order2 year monthMap prevMap manualYoY 1 = 0"
  by (simp add: lastRevenueAt_def monthLoop_unfold forLoop_exit)

lemma lastRevenueAt_next:
  assumes "1 \<le> m"
  shows "lastRevenueAt order1 order2 year monthMap prevMap manualYoY (m + 1) =
    (case monthMap m of
       Some r \<Rightarrow> MonthlyRevenue.Revenue r
     | None \<Rightarrow>
         let revenue = MonthEstimate.Revenue
               (missingMonth year prevMap
                  (average (fst (yoyRates monthMap prevMap order1))
                     (fst (snd (yoyRates monthMap prevMap order1))))
                  (average (fst (momRates monthMap prevMap order2))
                     (fst (snd (momRates monthMap prevMap order2))))
                  manualYoY m
                  (lastRevenueAt order1 order2 year monthMap prevMap manualYoY m))
         in if 0 < revenue then revenue
            else lastRevenueAt order1 order2 year monthMap prevMap manualYoY m)"
  unfolding lastRevenueAt_def monthLoop_unfold
  by (simp add: forLoop_last [OF assms] monthBody_lastRevenue)

lemma missingMonth_fields:
  "MonthEstimate.IsActual (missingMonth year prevMap avgYoY avgMoM manualYoY m l) = False"
  "MonthEstimate.YoY (missingMonth year prevMap avgYoY avgMoM manualYoY m l) =
     (case manualYoY m of Some v \<Rightarrow> v | None \<Rightarrow> avgYoY)"
  "PreviousRevenue (missingMonth year prevMap avgYoY avgMoM manualYoY m l) = floatAt prevMap m"
  "PreviousMonthRevenue (missingMonth year prevMap avgYoY avgMoM manualYoY m l) = l"
  "ReferenceYoY (missingMonth year prevMap avgYoY avgMoM manualYoY m l) =
     (case manualYoY m of Some v \<Rightarrow> v | None \<Rightarrow> avgYoY)"
  "ReferenceMoM (missingMonth year prevMap avgYoY avgMoM manualYoY m l) = avgMoM"
  by (simp_all add: missingMonth_def Let_def split_def)

lemma missingMonth_Revenue:
  "MonthEstimate.Revenue (missingMonth year prevMap avgYoY avgMoM manualYoY m l) =
     (if 0 < floatAt prevMap m
      then floatAt prevMap m * (1 + (case manualYoY m of Some v \<Rightarrow> v | None \<Rightarrow> avgYoY))
      else if 0 < l then l * (1 + avgMoM)
      else floatAt prevMap m * (1 + (case manualYoY m of Some v \<Rightarrow> v | None \<Rightarrow> avgYoY)))"
  by (simp add: missingMonth_def Let_def split_def)

lemma missingMonth_HasReference:
  "HasReference (missingMonth year prevMap avgYoY avgMoM manualYoY m l) \<longleftrightarrow>
     0 < floatAt prevMap m \<or> 0 < l"
  by (simp add: missingMonth_def Let_def split_def)

lemma missingMonth_ReferenceRevenue:
  "ReferenceRevenue (missingMonth year prevMap avgYoY avgMoM manualYoY m l) =
     chooseReferenceRevenue (floatAt prevMap m) l
       (floatAt prevMap m * (1 + (case manualYoY m of Some v \<Rightarrow> v | None \<Rightarrow> avgYoY)))
       (l * (1 + avgMoM))"
  by (simp add: missingMonth_def Let_def split_def)

lemma missingMonth_MoM:
  "MonthEstimate.MoM (missingMonth year prevMap avgYoY avgMoM manualYoY m l) =
     (if 0 < l
      then (MonthEstimate.Revenue (missingMonth year prevMap avgYoY avgMoM manualYoY m l) - l) / l
      else 0)"
  by (simp add: missingMonth_def Let_def split_def)

lemma actualMonth_fields:
  "MonthEstimate.IsActual (actualMonth year monthMap prevMap actualYoY actualMoM m r l) = True"
  "MonthEstimate.Revenue (actualMonth year monthMap prevMap actualYoY actualMoM m r l) =
     MonthlyRevenue.Revenue r"
  "PreviousRevenue (actualMonth year monthMap prevMap actualYoY actualMoM m r l) =
     floatAt prevMap m"
  "MonthEstimate.YoY (actualMonth year monthMap prevMap actualYoY actualMoM m r l) =
     floatAt actualYoY m"
  "PreviousMonthRevenue (actualMonth year monthMap prevMap actualYoY actualMoM m r l) =
     (if l \<le> 0 then previousYearMonthRevenue monthMap prevMap r else l)"
  "HasReference (actualMonth year monthMap prevMap actualYoY actualMoM m r l) = False"
  by (simp_all add: actualMonth_def Let_def)







lemma testGrouped_2024:
  "recordsOf testGrouped 2024 =
     [\<lparr>MonthlyRevenue.Year = 2024, Month = 1, Revenue = 388\<rparr>,
      \<lparr>MonthlyRevenue.Year = 2024, Month = 2, Revenue = 388\<rparr>]"
  by (simp add: recordsOf_def testGrouped_def)

lemma testGrouped_2023:
  "recordsOf testGrouped 2023 =
     buildMonthlyRevenue 2023 [300, 280, 320, 330, 340, 350, 360, 370, 380, 390, 400, 410]"
  by (simp add: recordsOf_def testGrouped_def)

lemma testGrouped_March:
  "floatAt (prevMapOf 2024 testGrouped) 3 = 320"
  by (simp add: prevMapOf_def testGrouped_2023 buildMonthlyRevenue_def SortMonthlyRevenues_def
      sortSlice_def lessRecord_def floatAt_def)

subsection \<open>Evaluation of the runs without a revenue of the year before\<close>












subsection \<open>Revenues of the year before that are negative\<close>






text \<open>
  In exact arithmetic and with revenues of the year before that are not negative, the
  revenue of a month without a reference is 0, as the claim has it.
\<close>

lemma buildPrevMap_Some:
  "buildPrevMap rs m0 k = Some v \<Longrightarrow>
     (\<exists>r\<in>set rs. MonthlyRevenue.Revenue r = v) \<or> m0 k = Some v"
proof (induction rs arbitrary: m0)
  case Nil
  then show ?case by simp
next
  case (Cons a rs)
  from Cons.prems have
    "buildPrevMap rs (m0(MonthlyRevenue.Month a \<mapsto> MonthlyRevenue.Revenue a)) k = Some v"
    by simp
  from Cons.IH [OF this] show ?case by (auto split: if_splits)
qed

lemma prevMapOf_nonneg:
  fixes grouped :: "int \<rightharpoonup> ('a::linordered_field) MonthlyRevenue list"
  assumes "\<forall>r\<in>set (recordsOf grouped (year - 1)). 0 \<le> MonthlyRevenue.Revenue r"
  shows "0 \<le> floatAt (prevMapOf year grouped) k"
proof (cases "prevMapOf year grouped k")
  case None
  then show ?thesis by (simp add: floatAt_def)
next
  case (Some v)
  from buildPrevMap_Some [OF Some [unfolded prevMapOf_def]] assms
  have "0 \<le> v" by (auto simp: SortMonthlyRevenues_def set_sortSlice)
  with Some show ?thesis by (simp add: floatAt_def)
qed

lemma missingMonth_without_reference:
  fixes grouped :: "int \<rightharpoonup> ('a::linordered_field) MonthlyRevenue list"
  assumes "\<forall>r\<in>set (recordsOf grouped (year - 1)). 0 \<le> MonthlyRevenue.Revenue r"
    and "\<not> HasReference (missingMonth year (prevMapOf year grouped) avgYoY avgMoM manualYoY m l)"
  shows "MonthEstimate.Revenue
           (missingMonth year (prevMapOf year grouped) avgYoY avgMoM manualYoY m l) = 0"
proof -
  have "0 \<le> floatAt (prevMapOf year grouped) m"
    using assms(1) by (rule prevMapOf_nonneg)
  with assms(2) show ?thesis
    by (simp add: missingMonth_Revenue missingMonth_HasReference)
qed

subsection \<open>The reference revenue\<close>

text \<open>
  Claim C6, as the code has it. For a month of 1 to 12 without a record, the reference revenue
  is the average of the two candidate revenues when \<^verbatim>\<open>PreviousRevenue\<close> and
  \<^verbatim>\<open>PreviousMonthRevenue\<close> are both positive, otherwise the candidate whose base of the two
  is positive, otherwise 0: \<^verbatim>\<open>chooseReferenceRevenue\<close> tests the two bases, not the two
  candidates. This holds for every number type.
\<close>

theorem reference_revenue_by_anchor:
  fixes asm :: "('a::{zero,one,plus,minus,times,inverse,ord}) Assumptions"
  assumes "BuildYearProjection order1 order2 year grouped manualYoY asm = (p, None)"
    and "1 \<le> m" and "m \<le> 12"
    and "\<forall>r\<in>set (recordsOf grouped year).
           MonthlyRevenue.Year r = year \<longrightarrow> MonthlyRevenue.Month r \<noteq> m"
  shows "PreviousRevenue (Months p ! nat (m - 1)) = floatAt (prevMapOf year grouped) m \<and>
    PreviousMonthRevenue (Months p ! nat (m - 1)) =
      lastRevenueAt order1 order2 year (monthMapOf year grouped) (prevMapOf year grouped)
        manualYoY m \<and>
    MonthEstimate.YoY (Months p ! nat (m - 1)) =
      (case manualYoY m of Some v \<Rightarrow> v | None \<Rightarrow> AvgYoY p) \<and>
    ReferenceRevenue (Months p ! nat (m - 1)) =
      (if 0 < PreviousRevenue (Months p ! nat (m - 1)) \<and>
          0 < PreviousMonthRevenue (Months p ! nat (m - 1))
       then (PreviousRevenue (Months p ! nat (m - 1)) *
               (1 + MonthEstimate.YoY (Months p ! nat (m - 1))) +
             PreviousMonthRevenue (Months p ! nat (m - 1)) * (1 + AvgMoM p)) / (1 + 1)
       else if 0 < PreviousRevenue (Months p ! nat (m - 1))
       then PreviousRevenue (Months p ! nat (m - 1)) *
              (1 + MonthEstimate.YoY (Months p ! nat (m - 1)))
       else if 0 < PreviousMonthRevenue (Months p ! nat (m - 1))
       then PreviousMonthRevenue (Months p ! nat (m - 1)) * (1 + AvgMoM p)
       else 0)"
proof -
  from assms(1) have p: "p = project order1 order2 year (monthMapOf year grouped)
      (prevMapOf year grouped) manualYoY asm"
    by (simp add: BuildYearProjection_success)
  from assms(4) have none: "monthMapOf year grouped m = None"
    by (simp add: monthMapOf_None)
  have e: "Months p ! nat (m - 1) =
      missingMonth year (prevMapOf year grouped) (AvgYoY p) (AvgMoM p) manualYoY m
        (lastRevenueAt order1 order2 year (monthMapOf year grouped) (prevMapOf year grouped)
           manualYoY m)"
    unfolding p by (simp add: project_month [OF assms(2,3)] none)
  show ?thesis
    unfolding e
    by (simp add: missingMonth_fields missingMonth_ReferenceRevenue chooseReferenceRevenue_def)
qed


lemma testGrouped_February:
  "monthMapOf 2024 testGrouped 2 = Some \<lparr>MonthlyRevenue.Year = 2024, Month = 2, Revenue = 388\<rparr>"
  by (simp add: monthMapOf_def testGrouped_2024 SortMonthlyRevenues_def sortSlice_def
      lessRecord_def)

theorem reference_revenue_by_anchor_witness:
  "snd testRun = None \<and>
   map MonthlyRevenue.Month (recordsOf testGrouped 2024) = [1, 2] \<and>
   PreviousRevenue (Months (fst testRun) ! 2) = 320 \<and>
   PreviousMonthRevenue (Months (fst testRun) ! 2) = 388 \<and>
   MonthEstimate.YoY (Months (fst testRun) ! 2) = 1 / 10 \<and>
   ReferenceRevenue (Months (fst testRun) ! 2) =
     (320 * (1 + 1 / 10) + 388 * (1 + AvgMoM (fst testRun))) / (1 + 1)"
proof -
  have s: "snd testRun = None"
    by (subst testRun_success) simp
  have a: "\<forall>r\<in>set (recordsOf testGrouped 2024).
      MonthlyRevenue.Year r = 2024 \<longrightarrow> MonthlyRevenue.Month r \<noteq> 3"
    by (simp add: testGrouped_2024)
  note t = reference_revenue_by_anchor
    [OF testRun_success [unfolded testRun_def] _ _ a, folded testRun_def]
  from t have prev: "PreviousRevenue (Months (fst testRun) ! 2) = 320"
    by (simp add: testGrouped_March)
  have "lastRevenueAt [1, 2] [2, 1] 2024 (monthMapOf 2024 testGrouped)
      (prevMapOf 2024 testGrouped) testManual (2 + 1) = 388"
    by (simp only: lastRevenueAt_next testGrouped_February) simp
  with t have last: "PreviousMonthRevenue (Months (fst testRun) ! 2) = 388"
    by simp
  from t have yoy: "MonthEstimate.YoY (Months (fst testRun) ! 2) = 1 / 10"
    by (simp add: testManual_def)
  from t have "ReferenceRevenue (Months (fst testRun) ! 2) =
      (320 * (1 + 1 / 10) + 388 * (1 + AvgMoM (fst testRun))) / (1 + 1)"
    by (simp add: prev last yoy)
  moreover have "map MonthlyRevenue.Month (recordsOf testGrouped 2024) = [1, 2]"
    by (simp add: testGrouped_2024)
  ultimately show ?thesis using s prev last yoy by blast
qed

subsection \<open>Evaluation of the run with a manual rate of minus 100 percent\<close>

lemma referenceRun_success: "referenceRun = (fst referenceRun, None)"
  by (simp add: prod_eq_iff referenceRun_def BuildYearProjection_def SortMonthlyRevenues_Nil
      recordsOf_def referenceGrouped_def buildMonthlyRevenue_def testAssumptions_def)

lemma referenceRun_project:
  "fst referenceRun =
     project [1] [1] 2024 (monthMapOf 2024 referenceGrouped) (prevMapOf 2024 referenceGrouped)
       referenceManual testAssumptions"
  using referenceRun_success
  by (simp add: referenceRun_def BuildYearProjection_success)

lemma referenceGrouped_monthMap:
  "monthMapOf 2024 referenceGrouped =
     [1 \<mapsto> \<lparr>MonthlyRevenue.Year = 2024, Month = 1, Revenue = 100\<rparr>]"
  by (simp add: monthMapOf_def recordsOf_def referenceGrouped_def buildMonthlyRevenue_def
      SortMonthlyRevenues_def sortSlice_def)

lemma referenceGrouped_prevMap:
  "prevMapOf 2024 referenceGrouped = [1 \<mapsto> 100, 2 \<mapsto> 200]"
  by (simp add: prevMapOf_def recordsOf_def referenceGrouped_def buildMonthlyRevenue_def
      SortMonthlyRevenues_def sortSlice_def lessRecord_def)

lemma referenceGrouped_February:
  "monthMapOf 2024 referenceGrouped 1 =
     Some \<lparr>MonthlyRevenue.Year = 2024, Month = 1, Revenue = 100\<rparr>"
  "monthMapOf 2024 referenceGrouped 2 = None"
  "floatAt (prevMapOf 2024 referenceGrouped) 2 = 200"
  by (simp_all add: referenceGrouped_monthMap referenceGrouped_prevMap floatAt_def)

lemma referenceRun_AvgMoM:
  "AvgMoM (project [1] [1] 2024 (monthMapOf 2024 referenceGrouped)
     (prevMapOf 2024 referenceGrouped) referenceManual asm) = 0"
  by (simp add: project_AvgMoM referenceGrouped_monthMap
      referenceGrouped_prevMap momRates_def sortSlice_def momBase_def recordAt_def
      sameYearRecord_def previousMonth_def average_def)

lemma referenceRun_lastRevenue:
  "lastRevenueAt [1] [1] 2024 (monthMapOf 2024 referenceGrouped)
     (prevMapOf 2024 referenceGrouped) referenceManual 2 = 100"
  using lastRevenueAt_next [of 1 "[1]" "[1]" 2024 "monthMapOf 2024 referenceGrouped"
      "prevMapOf 2024 referenceGrouped" referenceManual]
  by (simp add: referenceGrouped_February)

lemma referenceRun_February:
  "Months (project [1] [1] 2024 (monthMapOf 2024 referenceGrouped)
      (prevMapOf 2024 referenceGrouped) referenceManual asm) ! 1 =
     missingMonth 2024 (prevMapOf 2024 referenceGrouped)
       (AvgYoY (project [1] [1] 2024 (monthMapOf 2024 referenceGrouped)
          (prevMapOf 2024 referenceGrouped) referenceManual asm))
       0 referenceManual 2 100"
  using project_month [of 2 "[1]" "[1]" 2024 "monthMapOf 2024 referenceGrouped"
      "prevMapOf 2024 referenceGrouped" referenceManual asm]
  by (simp add: referenceRun_AvgMoM referenceRun_lastRevenue referenceGrouped_February)

text \<open>
  Claim C6 as it is written fails: with a manual rate of minus 100 percent the candidate from
  the year before is 0 and the other candidate is 100, so the claim gives 100, and the
  engine gives their average, 50.
\<close>

theorem reference_revenue_counterexample:
  "snd referenceRun = None \<and>
   \<not> MonthEstimate.IsActual (Months (fst referenceRun) ! 1) \<and>
   PreviousRevenue (Months (fst referenceRun) ! 1) *
     (1 + MonthEstimate.YoY (Months (fst referenceRun) ! 1)) = 0 \<and>
   PreviousMonthRevenue (Months (fst referenceRun) ! 1) * (1 + AvgMoM (fst referenceRun)) = 100 \<and>
   ReferenceRevenue (Months (fst referenceRun) ! 1) = 50 \<and>
   referenceOfCandidates
     (PreviousRevenue (Months (fst referenceRun) ! 1) *
        (1 + MonthEstimate.YoY (Months (fst referenceRun) ! 1)))
     (PreviousMonthRevenue (Months (fst referenceRun) ! 1) * (1 + AvgMoM (fst referenceRun)))
     = 100"
proof -
  have s: "snd referenceRun = None"
    by (subst referenceRun_success) simp
  have e: "Months (fst referenceRun) ! 1 =
      missingMonth 2024 (prevMapOf 2024 referenceGrouped) (AvgYoY (fst referenceRun))
        0 referenceManual 2 100"
    unfolding referenceRun_project by (rule referenceRun_February)
  have m: "AvgMoM (fst referenceRun) = 0"
    unfolding referenceRun_project by (rule referenceRun_AvgMoM)
  show ?thesis
    unfolding e m
    by (simp add: s missingMonth_fields missingMonth_ReferenceRevenue
        chooseReferenceRevenue_def referenceOfCandidates_def referenceManual_def
        referenceGrouped_February)
qed


subsection \<open>The revenue carried from month to month\<close>










subsection \<open>What the order of a range statement can change\<close>

lemma sorted_sortInsert:
  fixes x :: "'b::linorder"
  shows "sorted xs \<Longrightarrow> sorted (sortInsert (<) x xs)"
  by (induction xs) (auto simp: set_sortInsert)

lemma sorted_sortSlice: "sorted (sortSlice (<) (xs :: ('b::linorder) list))"
  by (induction xs) (simp_all add: sortSlice_def sorted_sortInsert)

lemma distinct_sortInsert:
  "distinct (sortInsert lt x xs) \<longleftrightarrow> x \<notin> set xs \<and> distinct xs"
  by (induction xs) (auto simp: set_sortInsert)

lemma distinct_sortSlice: "distinct (sortSlice lt xs) \<longleftrightarrow> distinct xs"
  by (induction xs) (simp_all add: sortSlice_def distinct_sortInsert set_sortSlice [unfolded sortSlice_def])

text \<open>Line 132 sorts the keys, so the order of the range statement of line 129 is lost.\<close>

lemma sortedMonths_unique:
  assumes "rangeOrder m ks" and "rangeOrder m ks'"
  shows "sortSlice (<) ks = sortSlice (<) ks'"
proof (rule sorted_distinct_set_unique)
  show "sorted (sortSlice (<) ks)" "sorted (sortSlice (<) ks')"
    by (rule sorted_sortSlice)+
  from assms show "distinct (sortSlice (<) ks)" "distinct (sortSlice (<) ks')"
    by (simp_all add: distinct_sortSlice rangeOrder_def)
  from assms show "set (sortSlice (<) ks) = set (sortSlice (<) ks')"
    by (simp add: set_sortSlice rangeOrder_def)
qed

lemma momRates_order:
  assumes "rangeOrder monthMap ks" and "rangeOrder monthMap ks'"
  shows "momRates monthMap prevMap ks = momRates monthMap prevMap ks'"
  by (simp add: momRates_def sortedMonths_unique [OF assms])

text \<open>
  In exact arithmetic the loop of line 117 adds up the same rates in any order; only the
  rounding of the additions can tell two orders apart.
\<close>

lemma yoyLoop_sum:
  fixes yoySum :: "'a::linordered_field"
  shows "yoyLoop monthMap prevMap ks (yoySum, yoyCount, actualYoY) =
    (yoySum +
       sum_list (map (\<lambda>k. (MonthlyRevenue.Revenue (recordAt monthMap k) - floatAt prevMap k) /
                           floatAt prevMap k)
                  (filter (\<lambda>k. \<not> floatAt prevMap k \<le> 0) ks)),
     yoyCount + length (filter (\<lambda>k. \<not> floatAt prevMap k \<le> 0) ks),
     \<lambda>k. if k \<in> set ks \<and> \<not> floatAt prevMap k \<le> 0
         then Some ((MonthlyRevenue.Revenue (recordAt monthMap k) - floatAt prevMap k) /
                      floatAt prevMap k)
         else actualYoY k)"
proof (induction ks arbitrary: yoySum yoyCount actualYoY)
  case Nil
  show ?case by simp
next
  case (Cons k ks)
  show ?case
    by (auto simp: Cons.IH Let_def add.assoc fun_eq_iff)
qed

lemma yoyRates_order:
  fixes prevMap :: "int \<rightharpoonup> 'a::linordered_field"
  assumes "rangeOrder monthMap ks" and "rangeOrder monthMap ks'"
  shows "yoyRates monthMap prevMap ks = yoyRates monthMap prevMap ks'"
proof -
  let ?P = "\<lambda>k. \<not> floatAt prevMap k \<le> 0"
  from assms have d: "distinct (filter ?P ks)" "distinct (filter ?P ks')"
    and s: "set (filter ?P ks) = set (filter ?P ks')" "set ks = set ks'"
    by (simp_all add: rangeOrder_def)
  have "sum_list (map f (filter ?P ks)) = sum_list (map f (filter ?P ks'))" for f :: "int \<Rightarrow> 'a"
    by (simp only: sum_list_distinct_conv_sum_set d s)
  moreover have "length (filter ?P ks) = length (filter ?P ks')"
    using distinct_card [OF d(1)] distinct_card [OF d(2)] s(1) by simp
  ultimately show ?thesis
    by (simp add: yoyRates_def yoyLoop_sum s(2))
qed

lemma exact_arithmetic_order:
  fixes asm :: "('a::linordered_field) Assumptions"
  assumes "rangeOrder (monthMapOf year grouped) order1"
    and "rangeOrder (monthMapOf year grouped) order1'"
    and "rangeOrder (monthMapOf year grouped) order2"
    and "rangeOrder (monthMapOf year grouped) order2'"
  shows "BuildYearProjection order1 order2 year grouped manualYoY asm =
    BuildYearProjection order1' order2' year grouped manualYoY asm"
  by (simp add: BuildYearProjection_def project_def
      yoyRates_order [OF assms(1,2)] momRates_order [OF assms(3,4)])

subsection \<open>The order of the range statement of line 117\<close>

lemma orderGrouped_monthMap:
  "monthMapOf 2024 orderGrouped =
     [1 \<mapsto> \<lparr>MonthlyRevenue.Year = 2024, Month = 1, Revenue = F64 110\<rparr>,
      2 \<mapsto> \<lparr>MonthlyRevenue.Year = 2024, Month = 2, Revenue = F64 120\<rparr>,
      3 \<mapsto> \<lparr>MonthlyRevenue.Year = 2024, Month = 3, Revenue = F64 130\<rparr>]"
  by (simp add: monthMapOf_def recordsOf_def orderGrouped_def buildMonthlyRevenue_def
      SortMonthlyRevenues_def sortSlice_def lessRecord_def)

lemma orderGrouped_success:
  "BuildYearProjection order1 order2 2024 orderGrouped Map.empty orderAssumptions =
     (project order1 order2 2024 (monthMapOf 2024 orderGrouped) (prevMapOf 2024 orderGrouped)
        Map.empty orderAssumptions, None)"
  by (simp add: BuildYearProjection_success recordsOf_def orderGrouped_def
      buildMonthlyRevenue_def orderAssumptions_def less_eq_f64_def zero_f64_def)

lemma orderGrouped_first:
  "average
     (fst (yoyRates (monthMapOf 2024 orderGrouped) (prevMapOf 2024 orderGrouped) [1, 2, 3]))
     (fst (snd (yoyRates (monthMapOf 2024 orderGrouped) (prevMapOf 2024 orderGrouped)
        [1, 2, 3]))) =
   F64 (7205759403792795 / 36028797018963968)"
  by code_simp

lemma orderGrouped_second:
  "average
     (fst (yoyRates (monthMapOf 2024 orderGrouped) (prevMapOf 2024 orderGrouped) [2, 3, 1]))
     (fst (snd (yoyRates (monthMapOf 2024 orderGrouped) (prevMapOf 2024 orderGrouped)
        [2, 3, 1]))) =
   F64 (7205759403792793 / 36028797018963968)"
  by code_simp

text \<open>
  Claim C1 does not hold of the code. Line 117 adds the rates to \<^verbatim>\<open>yoySum\<close> in the order
  in which \<^verbatim>\<open>range monthMap\<close> hands out the months, and binary64 addition is not
  associative: on this input the order January, February, March gives an \<^verbatim>\<open>AvgYoY\<close> of
  0.20000000000000004 and the order February, March, January one of 0.19999999999999998, so
  two runs on the same arguments can return different projections. The loop of line 133
  runs over the sorted months and has no such dependence (\<open>momRates_order\<close>), and in exact
  arithmetic neither loop has one (\<open>exact_arithmetic_order\<close>).
\<close>

theorem range_order_changes_AvgYoY:
  "rangeOrder (monthMapOf 2024 orderGrouped) [1, 2, 3] \<and>
   rangeOrder (monthMapOf 2024 orderGrouped) [2, 3, 1] \<and>
   AvgYoY (fst (BuildYearProjection [1, 2, 3] [1, 2, 3] 2024 orderGrouped Map.empty
     orderAssumptions)) = F64 (7205759403792795 / 36028797018963968) \<and>
   AvgYoY (fst (BuildYearProjection [2, 3, 1] [1, 2, 3] 2024 orderGrouped Map.empty
     orderAssumptions)) = F64 (7205759403792793 / 36028797018963968) \<and>
   BuildYearProjection [1, 2, 3] [1, 2, 3] 2024 orderGrouped Map.empty orderAssumptions \<noteq>
   BuildYearProjection [2, 3, 1] [1, 2, 3] 2024 orderGrouped Map.empty orderAssumptions"
proof -
  have r: "rangeOrder (monthMapOf 2024 orderGrouped) [1, 2, 3]"
    "rangeOrder (monthMapOf 2024 orderGrouped) [2, 3, 1]"
    by (auto simp: rangeOrder_def orderGrouped_monthMap)
  have a: "AvgYoY (fst (BuildYearProjection [1, 2, 3] [1, 2, 3] 2024 orderGrouped Map.empty
      orderAssumptions)) = F64 (7205759403792795 / 36028797018963968)"
    by (simp only: orderGrouped_success fst_conv project_AvgYoY orderGrouped_first)
  have b: "AvgYoY (fst (BuildYearProjection [2, 3, 1] [1, 2, 3] 2024 orderGrouped Map.empty
      orderAssumptions)) = F64 (7205759403792793 / 36028797018963968)"
    by (simp only: orderGrouped_success fst_conv project_AvgYoY orderGrouped_second)
  have "F64 (7205759403792795 / 36028797018963968) \<noteq> F64 (7205759403792793 / 36028797018963968)"
    by simp
  with a b have "BuildYearProjection [1, 2, 3] [1, 2, 3] 2024 orderGrouped Map.empty
      orderAssumptions \<noteq>
    BuildYearProjection [2, 3, 1] [1, 2, 3] 2024 orderGrouped Map.empty orderAssumptions"
    by metis
  with r a b show ?thesis by blast
qed

subsection \<open>The rates from month to month\<close>

text \<open>
  The loop of line 133 records a point for a month of its list exactly when the revenue it
  compares with is positive, and adds the points up in the order of the list.
\<close>

lemma momLoop_points:
  "momLoop monthMap prevMap ks (momSum, momCount, actualMoM) =
    (foldl (+) momSum
       (map (\<lambda>k. (MonthlyRevenue.Revenue (recordAt monthMap k) - momBase monthMap prevMap k) /
                    momBase monthMap prevMap k)
          (filter (\<lambda>k. \<not> momBase monthMap prevMap k \<le> 0) ks)),
     momCount + length (filter (\<lambda>k. \<not> momBase monthMap prevMap k \<le> 0) ks),
     \<lambda>k. if k \<in> set ks \<and> \<not> momBase monthMap prevMap k \<le> 0
         then Some ((MonthlyRevenue.Revenue (recordAt monthMap k) - momBase monthMap prevMap k) /
                      momBase monthMap prevMap k)
         else actualMoM k)"
proof (induction ks arbitrary: momSum momCount actualMoM)
  case Nil
  show ?case by simp
next
  case (Cons k ks)
  show ?case
    by (auto simp: Cons.IH Let_def fun_eq_iff)
qed

text \<open>
  The revenue a reported month is compared with. Every record of \<^verbatim>\<open>monthMap\<close> is of the
  requested year, so the test on the years of lines 137 and 312 always succeeds: the month
  before is looked up in the requested year, also when it is the December that follows
  January, and the December of the year before is used only when the requested year has none.
\<close>

lemma momBase_monthMapOf:
  assumes "monthMapOf year grouped m = Some r"
  shows "momBase (monthMapOf year grouped) prevMap m =
    (case monthMapOf year grouped (previousMonth m) of
       Some prevRec \<Rightarrow> MonthlyRevenue.Revenue prevRec
     | None \<Rightarrow> if m = 1 \<or> m = 13 then floatAt prevMap 12 else 0)"
proof (cases "monthMapOf year grouped (previousMonth m)")
  case None
  then show ?thesis
    by (auto simp: momBase_def sameYearRecord_def previousMonth_def floatAt_def Let_def
        split: option.splits)
next
  case (Some prevRec)
  from monthMapOf_Some [OF Some] monthMapOf_Some [OF assms]
  have "MonthlyRevenue.Year prevRec = MonthlyRevenue.Year r" by simp
  with Some assms show ?thesis
    by (simp add: momBase_def sameYearRecord_def recordAt_def Let_def)
qed

subsection \<open>The month before January\<close>

lemma decemberGrouped_monthMap:
  "monthMapOf 2023 decemberGrouped =
     [1 \<mapsto> \<lparr>MonthlyRevenue.Year = 2023, Month = 1, Revenue = 100\<rparr>,
      12 \<mapsto> \<lparr>MonthlyRevenue.Year = 2023, Month = 12, Revenue = 200\<rparr>]"
  by (simp add: monthMapOf_def recordsOf_def decemberGrouped_def SortMonthlyRevenues_def
      sortSlice_def lessRecord_def)

lemma decemberGrouped_prevMap: "prevMapOf 2023 decemberGrouped = [12 \<mapsto> 50]"
  by (simp add: prevMapOf_def recordsOf_def decemberGrouped_def SortMonthlyRevenues_def
      sortSlice_def)

lemma decemberRun_project:
  "fst decemberRun =
     project [1, 12] [1, 12] 2023 (monthMapOf 2023 decemberGrouped)
       (prevMapOf 2023 decemberGrouped) Map.empty testAssumptions"
  by (simp add: decemberRun_def BuildYearProjection_def SortMonthlyRevenues_Nil recordsOf_def
      decemberGrouped_def testAssumptions_def)

lemma decemberGrouped_momBase:
  "momBase (monthMapOf 2023 decemberGrouped) (prevMapOf 2023 decemberGrouped) 1 = 200"
  by (simp add: decemberGrouped_monthMap decemberGrouped_prevMap momBase_def recordAt_def
      sameYearRecord_def previousMonth_def)

lemma decemberGrouped_momRates:
  "momRates (monthMapOf 2023 decemberGrouped) (prevMapOf 2023 decemberGrouped) [1, 12] =
     (- (1 / 2), 1, [1 \<mapsto> - (1 / 2)])"
  by (simp add: decemberGrouped_monthMap decemberGrouped_prevMap momRates_def sortSlice_def
      momBase_def recordAt_def sameYearRecord_def previousMonth_def Let_def)

lemma decemberGrouped_January:
  "monthMapOf 2023 decemberGrouped 1 =
     Some \<lparr>MonthlyRevenue.Year = 2023, Month = 1, Revenue = 100\<rparr>"
  by (simp add: decemberGrouped_monthMap)

lemma decemberRun_January:
  "Months (fst decemberRun) ! 0 =
     actualMonth 2023 (monthMapOf 2023 decemberGrouped) (prevMapOf 2023 decemberGrouped)
       (snd (snd (yoyRates (monthMapOf 2023 decemberGrouped) (prevMapOf 2023 decemberGrouped)
          [1, 12])))
       [1 \<mapsto> - (1 / 2)] 1 \<lparr>MonthlyRevenue.Year = 2023, Month = 1, Revenue = 100\<rparr> 0"
proof -
  have "Months (project [1, 12] [1, 12] 2023 (monthMapOf 2023 decemberGrouped)
      (prevMapOf 2023 decemberGrouped) Map.empty testAssumptions) ! nat (1 - 1) =
    actualMonth 2023 (monthMapOf 2023 decemberGrouped) (prevMapOf 2023 decemberGrouped)
      (snd (snd (yoyRates (monthMapOf 2023 decemberGrouped) (prevMapOf 2023 decemberGrouped)
         [1, 12])))
      (snd (snd (momRates (monthMapOf 2023 decemberGrouped) (prevMapOf 2023 decemberGrouped)
         [1, 12])))
      1 \<lparr>MonthlyRevenue.Year = 2023, Month = 1, Revenue = 100\<rparr>
      (lastRevenueAt [1, 12] [1, 12] 2023 (monthMapOf 2023 decemberGrouped)
         (prevMapOf 2023 decemberGrouped) Map.empty 1)"
    using project_month [of 1 "[1, 12]" "[1, 12]" 2023 "monthMapOf 2023 decemberGrouped"
        "prevMapOf 2023 decemberGrouped" Map.empty testAssumptions]
    by (simp add: decemberGrouped_January)
  then show ?thesis
    by (simp add: decemberRun_project decemberGrouped_momRates lastRevenueAt_first)
qed

text \<open>
  Claim C5 does not hold of the code. Lines 137 and 312 look for the month before in
  \<^verbatim>\<open>monthMap\<close> first, and \<^verbatim>\<open>monthMap\<close> holds the requested year only: for January the month
  before is December, and a reported December of the requested year itself passes the test
  \<^verbatim>\<open>prevRec.Year == rec.Year\<close>. With December 2022 at 50, January 2023 at 100 and December
  2023 at 200, the rate of January is computed against the 200 of the December that follows
  it, \<open>(100 - 200) / 200\<close>, and not against the 50 of the December before it, which would
  give \<open>(100 - 50) / 50 = 1\<close>.
\<close>

theorem january_compared_with_december_of_same_year:
  "MonthEstimate.IsActual (Months (fst decemberRun) ! 0) \<and>
   MonthEstimate.Month (Months (fst decemberRun) ! 0) = 1 \<and>
   MonthEstimate.Revenue (Months (fst decemberRun) ! 0) = 100 \<and>
   floatAt (prevMapOf 2023 decemberGrouped) 12 = 50 \<and>
   momBase (monthMapOf 2023 decemberGrouped) (prevMapOf 2023 decemberGrouped) 1 = 200 \<and>
   snd (snd (momRates (monthMapOf 2023 decemberGrouped) (prevMapOf 2023 decemberGrouped)
     [1, 12])) 1 = Some (- (1 / 2)) \<and>
   AvgMoM (fst decemberRun) = - (1 / 2) \<and>
   MoM (Months (fst decemberRun) ! 0) = - (1 / 2) \<and>
   PreviousMonthRevenue (Months (fst decemberRun) ! 0) = 200"
proof -
  have "AvgMoM (fst decemberRun) = - (1 / 2)"
    by (simp add: decemberRun_project project_AvgMoM decemberGrouped_momRates average_def)
  moreover have "floatAt (prevMapOf 2023 decemberGrouped) 12 = 50"
    by (simp add: decemberGrouped_prevMap floatAt_def)
  moreover have "previousYearMonthRevenue (monthMapOf 2023 decemberGrouped)
      (prevMapOf 2023 decemberGrouped)
      \<lparr>MonthlyRevenue.Year = 2023, Month = 1, Revenue = 100\<rparr> = 200"
    by (simp add: decemberGrouped_monthMap previousYearMonthRevenue_def sameYearRecord_def
        previousMonth_def)
  ultimately show ?thesis
    unfolding decemberRun_January
    by (simp add: actualMonth_def decemberGrouped_momBase decemberGrouped_momRates)
qed

subsection \<open>Divisions\<close>

lemma checkedDiv_ok: "ok b \<Longrightarrow> checkedDiv ok a b = Some (a / b)"
  by (simp add: checkedDiv_def)

lemma averageChecked_average:
  assumes "\<And>n. 0 < n \<Longrightarrow> ok (float64 n)"
  shows "averageChecked ok s n = Some (average s n)"
  by (simp add: averageChecked_def average_def checkedDiv_ok assms)

lemma yoyLoopChecked_yoyLoop:
  assumes "\<And>b. \<not> b \<le> 0 \<Longrightarrow> ok b"
  shows "yoyLoopChecked ok monthMap prevMap ks acc = Some (yoyLoop monthMap prevMap ks acc)"
proof (induction monthMap prevMap ks acc rule: yoyLoop.induct)
  case (1 monthMap prevMap acc)
  show ?case by simp
next
  case (2 monthMap prevMap month rest yoySum yoyCount actualYoY)
  show ?case
  proof (cases "floatAt prevMap month \<le> 0")
    case True
    with "2.IH"(1) show ?thesis by simp
  next
    case False
    then have "ok (floatAt prevMap month)" by (rule assms)
    with False "2.IH"(2) show ?thesis
      by (simp add: checkedDiv_ok Let_def)
  qed
qed

lemma momLoopChecked_momLoop:
  assumes "\<And>b. \<not> b \<le> 0 \<Longrightarrow> ok b"
  shows "momLoopChecked ok monthMap prevMap ks acc = Some (momLoop monthMap prevMap ks acc)"
proof (induction monthMap prevMap ks acc rule: momLoop.induct)
  case (1 monthMap prevMap acc)
  show ?case by simp
next
  case (2 monthMap prevMap month rest momSum momCount actualMoM)
  show ?case
  proof (cases "momBase monthMap prevMap month \<le> 0")
    case True
    with "2.IH"(1) show ?thesis by simp
  next
    case False
    then have "ok (momBase monthMap prevMap month)" by (rule assms)
    with False "2.IH"(2) show ?thesis
      by (simp add: checkedDiv_ok Let_def)
  qed
qed

lemma chooseReferenceRevenueChecked_chooseReferenceRevenue:
  assumes "ok (1 + 1)"
  shows "chooseReferenceRevenueChecked ok prevYear prevMonth revenueYoY revenueMoM =
    Some (chooseReferenceRevenue prevYear prevMonth revenueYoY revenueMoM)"
  by (simp add: chooseReferenceRevenueChecked_def chooseReferenceRevenue_def
      checkedDiv_ok assms)

lemma actualMonthChecked_actualMonth:
  assumes "\<And>b. 0 < b \<Longrightarrow> ok b"
  shows "actualMonthChecked ok year monthMap prevMap actualYoY actualMoM m r lastRevenue =
    Some (actualMonth year monthMap prevMap actualYoY actualMoM m r lastRevenue)"
  by (simp add: actualMonthChecked_def actualMonth_def checkedDiv_ok assms Let_def
      split: option.splits)

lemma missingMonthChecked_missingMonth:
  assumes "\<And>b. 0 < b \<Longrightarrow> ok b" and "ok (1 + 1)"
  shows "missingMonthChecked ok year prevMap avgYoY avgMoM manualYoY m lastRevenue =
    Some (missingMonth year prevMap avgYoY avgMoM manualYoY m lastRevenue)"
  by (simp add: missingMonthChecked_def missingMonth_def checkedDiv_ok assms(1) Let_def
      split_def chooseReferenceRevenueChecked_chooseReferenceRevenue [of ok, OF assms(2)])

lemma monthBodyChecked_monthBody:
  assumes "\<And>b. 0 < b \<Longrightarrow> ok b" and "ok (1 + 1)"
  shows "monthBodyChecked ok year monthMap prevMap actualYoY actualMoM avgYoY avgMoM manualYoY
      m st =
    Some (monthBody year monthMap prevMap actualYoY actualMoM avgYoY avgMoM manualYoY m st)"
  by (simp add: monthBodyChecked_def monthBody_def actualMonthChecked_actualMonth [of ok, OF assms(1)]
      missingMonthChecked_missingMonth [of ok, OF assms] Let_def split: prod.splits option.splits)

lemma forLoopChecked_forLoop:
  assumes "\<And>i s. bodyChecked i s = Some (body i s)"
  shows "forLoopChecked i hi bodyChecked s = Some (forLoop i hi body s)"
proof (induction "nat (hi + 1 - i)" arbitrary: i s)
  case 0
  then have "hi < i" by simp
  then show ?case
    by (subst forLoopChecked.simps, subst forLoop.simps) simp
next
  case (Suc n)
  then have le: "i \<le> hi" and n: "n = nat (hi + 1 - (i + 1))" by simp_all
  from Suc.hyps(1) [OF n] le show ?case
    by (subst forLoopChecked.simps, subst forLoop.simps) (simp add: assms)
qed

lemma applyActualChecked_applyActual:
  assumes "ok (SharesOutstanding asm)"
  shows "applyActualChecked ok asm q quarter = Some (applyActual asm q quarter)"
  using assms
  by (simp add: applyActualChecked_def applyActual_def checkedDiv_ok split: option.splits)

lemma computeQuarterChecked_computeQuarter:
  assumes "ok (SharesOutstanding asm)"
  shows "computeQuarterChecked ok asm months q = Some (computeQuarter asm months q)"
  using assms
  by (simp add: computeQuarterChecked_def computeQuarter_def checkedDiv_ok Let_def
      split_def applyActualChecked_applyActual)

lemma quarterBodyChecked_quarterBody:
  assumes "ok (SharesOutstanding asm)"
  shows "quarterBodyChecked ok asm months q st = Some (quarterBody asm months q st)"
  using assms
  by (simp add: quarterBodyChecked_def quarterBody_def Let_def
      computeQuarterChecked_computeQuarter split: prod.splits)

lemma projectChecked_project:
  assumes pos: "\<And>b. 0 < b \<Longrightarrow> ok b" and passed: "\<And>b. \<not> b \<le> 0 \<Longrightarrow> ok b"
    and counts: "\<And>n. 0 < n \<Longrightarrow> ok (float64 n)" and two: "ok (1 + 1)"
    and shares: "ok (SharesOutstanding asm)"
  shows "projectChecked ok order1 order2 year monthMap prevMap manualYoY asm =
    Some (project order1 order2 year monthMap prevMap manualYoY asm)"
proof -
  have months: "forLoopChecked 1 12
      (monthBodyChecked ok year monthMap prevMap actualYoY actualMoM avgYoY avgMoM manualYoY) s =
    Some (forLoop 1 12
      (monthBody year monthMap prevMap actualYoY actualMoM avgYoY avgMoM manualYoY) s)"
    for actualYoY actualMoM avgYoY avgMoM s
    by (rule forLoopChecked_forLoop) (rule monthBodyChecked_monthBody [of ok, OF pos two])
  have quarters: "forLoopChecked 1 4 (quarterBodyChecked ok asm ms) s =
      Some (forLoop 1 4 (quarterBody asm ms) s)" for ms s
    by (rule forLoopChecked_forLoop) (rule quarterBodyChecked_quarterBody [of ok, OF shares])
  show ?thesis
    by (simp add: projectChecked_def project_def yoyRates_def momRates_def
        yoyLoopChecked_yoyLoop [of ok, OF passed] momLoopChecked_momLoop [of ok, OF passed]
        averageChecked_average [of ok, OF counts] months quarters checkedDiv_ok pos Let_def
        split_def)
qed

text \<open>
  The engine with checked divisions returns what the engine returns, for every condition on
  the divisors that holds of the numbers that are positive, of the numbers \<open>b\<close> for which
  \<^verbatim>\<open>b <= 0\<close> is false, of the counts from 1 on and of 2.
\<close>

lemma BuildYearProjectionChecked_BuildYearProjection:
  assumes pos: "\<And>b. 0 < b \<Longrightarrow> ok b" and passed: "\<And>b. \<not> b \<le> 0 \<Longrightarrow> ok b"
    and counts: "\<And>n. 0 < n \<Longrightarrow> ok (float64 n)" and two: "ok (1 + 1)"
  shows "BuildYearProjectionChecked ok order1 order2 year grouped manualYoY asm =
    Some (BuildYearProjection order1 order2 year grouped manualYoY asm)"
proof (cases "SharesOutstanding asm \<le> 0")
  case True
  then show ?thesis
    by (simp add: BuildYearProjectionChecked_def BuildYearProjection_def)
next
  case False
  then have "ok (SharesOutstanding asm)" by (rule passed)
  from projectChecked_project [of ok, OF pos passed counts two this] False show ?thesis
    by (simp add: BuildYearProjectionChecked_def BuildYearProjection_def)
qed

text \<open>Without the test of line 95 the division by the shares would not be safe.\<close>

lemma computeQuarterChecked_no_shares:
  "\<not> ok (SharesOutstanding asm) \<Longrightarrow> computeQuarterChecked ok asm months q = None"
  by (simp add: computeQuarterChecked_def checkedDiv_def Let_def split_def)

text \<open>
  In exact arithmetic a number \<open>b\<close> for which \<^verbatim>\<open>b <= 0\<close> is false is positive, and every
  division is reached with a strictly positive divisor.
\<close>

lemma float64_of_nat: "(float64 n :: 'a::linordered_field) = of_nat n"
  by (induction n) simp_all

lemma divisors_positive_in_exact_arithmetic:
  fixes asm :: "('a::linordered_field) Assumptions"
  shows "BuildYearProjectionChecked strictlyPositive order1 order2 year grouped manualYoY asm =
    Some (BuildYearProjection order1 order2 year grouped manualYoY asm)"
  by (rule BuildYearProjectionChecked_BuildYearProjection)
    (simp_all add: strictlyPositive_def float64_of_nat)

text \<open>The values that stand in for a division that is not made.\<close>

lemma project_Upside:
  "Upside (project order1 order2 year monthMap prevMap manualYoY asm) =
     (if 0 < CurrentPrice asm
      then (EstimatedPrice (project order1 order2 year monthMap prevMap manualYoY asm) -
              CurrentPrice asm) / CurrentPrice asm
      else 0)"
  by (simp add: project_def Let_def split_def)

lemma yoyLoop_points:
  "snd (snd (yoyLoop monthMap prevMap ks (yoySum, yoyCount, actualYoY))) =
     (\<lambda>k. if k \<in> set ks \<and> \<not> floatAt prevMap k \<le> 0
          then Some ((MonthlyRevenue.Revenue (recordAt monthMap k) - floatAt prevMap k) /
                       floatAt prevMap k)
          else actualYoY k)"
proof (induction ks arbitrary: yoySum yoyCount actualYoY)
  case Nil
  show ?case by simp
next
  case (Cons k ks)
  show ?case
    by (auto simp: Cons.IH Let_def fun_eq_iff)
qed

lemma actualMonth_YoY:
  assumes "monthMap m = Some r"
  shows "MonthEstimate.YoY
      (actualMonth year monthMap prevMap (snd (snd (yoyRates monthMap prevMap order1)))
         actualMoM m r l) =
    (if m \<in> set order1 \<and> \<not> floatAt prevMap m \<le> 0
     then (MonthlyRevenue.Revenue r - floatAt prevMap m) / floatAt prevMap m
     else 0)"
  using assms
  by (simp add: actualMonth_fields yoyRates_def yoyLoop_points floatAt_def recordAt_def)

lemma actualMonth_MoM:
  assumes "monthMap m = Some r"
  shows "MonthEstimate.MoM
      (actualMonth year monthMap prevMap actualYoY
         (snd (snd (momRates monthMap prevMap order2))) m r l) =
    (if m \<in> set order2 \<and> \<not> momBase monthMap prevMap m \<le> 0
     then (MonthlyRevenue.Revenue r - momBase monthMap prevMap m) / momBase monthMap prevMap m
     else if 0 < (if l \<le> 0 then previousYearMonthRevenue monthMap prevMap r else l)
     then (MonthlyRevenue.Revenue r -
             (if l \<le> 0 then previousYearMonthRevenue monthMap prevMap r else l)) /
          (if l \<le> 0 then previousYearMonthRevenue monthMap prevMap r else l)
     else 0)"
  using assms
  by (simp add: actualMonth_def momRates_def momLoop_points set_sortSlice recordAt_def Let_def)

text \<open>
  Claim C9, as the code has it, for every number type in which a count from 1 on and 2 are
  positive, 0 is not below itself and 0 is at most itself, float64 with its NaN among them.
  On every input the engine with checked divisions returns what the engine returns when the
  divisors are checked to be guarded, and also when they are checked not to be zero: no
  division by zero is reached. When no error is returned, \<^verbatim>\<open>SharesOutstanding <= 0\<close> is
  false, and each quotient is either the quotient or the value that stands in for it: the
  upside is 0 unless the current price is positive, an average rate is 0 unless its count
  is positive, the rate from month to month of a month without a record is 0 unless its
  \<^verbatim>\<open>PreviousMonthRevenue\<close> is positive, such a month has a reference exactly when one of
  its two base revenues is positive, and the two rates of a reported month are the recorded
  rates when \<^verbatim>\<open>prev <= 0\<close> and \<^verbatim>\<open>prevRevenue <= 0\<close> are false and otherwise 0, or the
  rate of line 175 when \<^verbatim>\<open>PreviousMonthRevenue\<close> is positive. The tests of lines 95, 119
  and 144 are of the form \<^verbatim>\<open>b <= 0\<close>: a NaN passes them and is then a divisor.
\<close>

theorem divisions_are_guarded:
  fixes asm :: "('a::{zero,one,plus,minus,times,inverse,ord}) Assumptions"
  assumes "\<And>n. 0 < n \<Longrightarrow> (0::'a) < float64 n" and "(0::'a) < 1 + 1"
    and "\<not> (0::'a) < 0" and "(0::'a) \<le> 0"
  shows
    "BuildYearProjectionChecked guarded order1 order2 year grouped manualYoY asm =
       Some (BuildYearProjection order1 order2 year grouped manualYoY asm) \<and>
     BuildYearProjectionChecked notZero order1 order2 year grouped manualYoY asm =
       Some (BuildYearProjection order1 order2 year grouped manualYoY asm) \<and>
     (\<forall>p. BuildYearProjection order1 order2 year grouped manualYoY asm = (p, None) \<longrightarrow>
        \<not> SharesOutstanding asm \<le> 0 \<and>
        Upside p =
          (if 0 < CurrentPrice asm
           then (EstimatedPrice p - CurrentPrice asm) / CurrentPrice asm else 0) \<and>
        AvgYoY p =
          (if 0 < fst (snd (yoyRates (monthMapOf year grouped) (prevMapOf year grouped) order1))
           then fst (yoyRates (monthMapOf year grouped) (prevMapOf year grouped) order1) /
                float64
                  (fst (snd (yoyRates (monthMapOf year grouped) (prevMapOf year grouped)
                               order1)))
           else 0) \<and>
        AvgMoM p =
          (if 0 < fst (snd (momRates (monthMapOf year grouped) (prevMapOf year grouped) order2))
           then fst (momRates (monthMapOf year grouped) (prevMapOf year grouped) order2) /
                float64
                  (fst (snd (momRates (monthMapOf year grouped) (prevMapOf year grouped)
                               order2)))
           else 0) \<and>
        (\<forall>m. 1 \<le> m \<and> m \<le> 12 \<and> monthMapOf year grouped m = None \<longrightarrow>
           MonthEstimate.MoM (Months p ! nat (m - 1)) =
             (if 0 < PreviousMonthRevenue (Months p ! nat (m - 1))
              then (MonthEstimate.Revenue (Months p ! nat (m - 1)) -
                      PreviousMonthRevenue (Months p ! nat (m - 1))) /
                   PreviousMonthRevenue (Months p ! nat (m - 1))
              else 0) \<and>
           HasReference (Months p ! nat (m - 1)) =
             (0 < PreviousRevenue (Months p ! nat (m - 1)) \<or>
              0 < PreviousMonthRevenue (Months p ! nat (m - 1)))) \<and>
        (\<forall>m r. 1 \<le> m \<and> m \<le> 12 \<and> monthMapOf year grouped m = Some r \<longrightarrow>
           MonthEstimate.YoY (Months p ! nat (m - 1)) =
             (if m \<in> set order1 \<and> \<not> PreviousRevenue (Months p ! nat (m - 1)) \<le> 0
              then (MonthEstimate.Revenue (Months p ! nat (m - 1)) -
                      PreviousRevenue (Months p ! nat (m - 1))) /
                   PreviousRevenue (Months p ! nat (m - 1))
              else 0) \<and>
           MonthEstimate.MoM (Months p ! nat (m - 1)) =
             (if m \<in> set order2 \<and>
                 \<not> momBase (monthMapOf year grouped) (prevMapOf year grouped) m \<le> 0
              then (MonthEstimate.Revenue (Months p ! nat (m - 1)) -
                      momBase (monthMapOf year grouped) (prevMapOf year grouped) m) /
                   momBase (monthMapOf year grouped) (prevMapOf year grouped) m
              else if 0 < PreviousMonthRevenue (Months p ! nat (m - 1))
              then (MonthEstimate.Revenue (Months p ! nat (m - 1)) -
                      PreviousMonthRevenue (Months p ! nat (m - 1))) /
                   PreviousMonthRevenue (Months p ! nat (m - 1))
              else 0)))"
proof -
  let ?mm = "monthMapOf year grouped" and ?pm = "prevMapOf year grouped"
  let ?p = "project order1 order2 year ?mm ?pm manualYoY asm"
  let ?last = "lastRevenueAt order1 order2 year ?mm ?pm manualYoY"
  have counts: "guarded (float64 n :: 'a)" "notZero (float64 n :: 'a)" if "0 < n" for n
    using assms(1) [OF that] assms(3) by (auto simp: guarded_def notZero_def)
  have two: "guarded (1 + 1 :: 'a)" "notZero (1 + 1 :: 'a)"
    using assms(2,3) by (auto simp: guarded_def notZero_def)
  have pos: "notZero b" if "0 < b" for b :: 'a
    using that assms(3) by (auto simp: notZero_def)
  have passed: "notZero b" if "\<not> b \<le> 0" for b :: 'a
    using that assms(4) by (auto simp: notZero_def)
  have checked: "BuildYearProjectionChecked guarded order1 order2 year grouped manualYoY asm =
      Some (BuildYearProjection order1 order2 year grouped manualYoY asm)"
    by (rule BuildYearProjectionChecked_BuildYearProjection)
      (simp_all add: guarded_def counts [unfolded guarded_def] two [unfolded guarded_def])
  have nonzero: "BuildYearProjectionChecked notZero order1 order2 year grouped manualYoY asm =
      Some (BuildYearProjection order1 order2 year grouped manualYoY asm)"
    by (rule BuildYearProjectionChecked_BuildYearProjection)
      (simp_all add: pos passed counts two)
  have missing:
    "MonthEstimate.MoM (Months ?p ! nat (m - 1)) =
       (if 0 < PreviousMonthRevenue (Months ?p ! nat (m - 1))
        then (MonthEstimate.Revenue (Months ?p ! nat (m - 1)) -
                PreviousMonthRevenue (Months ?p ! nat (m - 1))) /
             PreviousMonthRevenue (Months ?p ! nat (m - 1))
        else 0) \<and>
     HasReference (Months ?p ! nat (m - 1)) =
       (0 < PreviousRevenue (Months ?p ! nat (m - 1)) \<or>
        0 < PreviousMonthRevenue (Months ?p ! nat (m - 1)))"
    if m: "1 \<le> m" "m \<le> 12" and none: "?mm m = None" for m
  proof -
    have e: "Months ?p ! nat (m - 1) =
        missingMonth year ?pm (AvgYoY ?p) (AvgMoM ?p) manualYoY m (?last m)"
      using project_month [OF m, of order1 order2 year ?mm ?pm manualYoY asm] none by simp
    show ?thesis
      unfolding e
      by (simp only: missingMonth_MoM missingMonth_HasReference missingMonth_fields)
  qed
  have reported:
    "MonthEstimate.YoY (Months ?p ! nat (m - 1)) =
       (if m \<in> set order1 \<and> \<not> PreviousRevenue (Months ?p ! nat (m - 1)) \<le> 0
        then (MonthEstimate.Revenue (Months ?p ! nat (m - 1)) -
                PreviousRevenue (Months ?p ! nat (m - 1))) /
             PreviousRevenue (Months ?p ! nat (m - 1))
        else 0) \<and>
     MonthEstimate.MoM (Months ?p ! nat (m - 1)) =
       (if m \<in> set order2 \<and> \<not> momBase ?mm ?pm m \<le> 0
        then (MonthEstimate.Revenue (Months ?p ! nat (m - 1)) - momBase ?mm ?pm m) /
             momBase ?mm ?pm m
        else if 0 < PreviousMonthRevenue (Months ?p ! nat (m - 1))
        then (MonthEstimate.Revenue (Months ?p ! nat (m - 1)) -
                PreviousMonthRevenue (Months ?p ! nat (m - 1))) /
             PreviousMonthRevenue (Months ?p ! nat (m - 1))
        else 0)"
    if m: "1 \<le> m" "m \<le> 12" and some: "?mm m = Some r" for m r
  proof -
    have e: "Months ?p ! nat (m - 1) =
        actualMonth year ?mm ?pm (snd (snd (yoyRates ?mm ?pm order1)))
          (snd (snd (momRates ?mm ?pm order2))) m r (?last m)"
      using project_month [OF m, of order1 order2 year ?mm ?pm manualYoY asm] some by simp
    show ?thesis
      unfolding e
      by (simp add: actualMonth_YoY [where monthMap = "?mm", OF some]
          actualMonth_MoM [where monthMap = "?mm", OF some] actualMonth_fields(2,3,5))
  qed
  have fallbacks:
    "\<not> SharesOutstanding asm \<le> 0 \<and>
     Upside ?p =
       (if 0 < CurrentPrice asm
        then (EstimatedPrice ?p - CurrentPrice asm) / CurrentPrice asm else 0) \<and>
     AvgYoY ?p =
       (if 0 < fst (snd (yoyRates ?mm ?pm order1))
        then fst (yoyRates ?mm ?pm order1) / float64 (fst (snd (yoyRates ?mm ?pm order1)))
        else 0) \<and>
     AvgMoM ?p =
       (if 0 < fst (snd (momRates ?mm ?pm order2))
        then fst (momRates ?mm ?pm order2) / float64 (fst (snd (momRates ?mm ?pm order2)))
        else 0)"
    if "BuildYearProjection order1 order2 year grouped manualYoY asm = (p, None)" for p
    using that
    by (simp add: BuildYearProjection_success project_Upside [symmetric] project_AvgYoY
        project_AvgMoM average_def)
  have p: "p = ?p"
    if "BuildYearProjection order1 order2 year grouped manualYoY asm = (p, None)" for p
    using that by (simp add: BuildYearProjection_success)
  from checked nonzero fallbacks missing reported p show ?thesis
    by blast
qed

subsection \<open>Evaluation of the run with a NaN\<close>

lemmas nreal_defs =
  zero_nreal_def one_nreal_def plus_nreal_def minus_nreal_def times_nreal_def
  divide_nreal_def less_nreal_def less_eq_nreal_def

lemma float64_nreal: "float64 n = Num (of_nat n)"
  by (induction n) (simp_all add: nreal_defs)

lemma nreal_laws:
  "0 < n \<Longrightarrow> (0::nreal) < float64 n"
  "(0::nreal) < 1 + 1"
  "\<not> (0::nreal) < 0"
  "(0::nreal) \<le> 0"
  by (simp_all add: float64_nreal) (simp_all add: nreal_defs)

lemma nanRun_success: "nanRun = (fst nanRun, None)"
  by (simp add: prod_eq_iff nanRun_def BuildYearProjection_def SortMonthlyRevenues_Nil
      recordsOf_def nanGrouped_def nanAssumptions_def nreal_defs)

lemma nanGrouped_tables:
  "monthMapOf 2024 nanGrouped =
     [2 \<mapsto> \<lparr>MonthlyRevenue.Year = 2024, Month = 2, Revenue = Num 100\<rparr>]"
  "prevMapOf 2024 nanGrouped = [2 \<mapsto> NaN]"
  by (simp_all add: monthMapOf_def prevMapOf_def recordsOf_def nanGrouped_def
      SortMonthlyRevenues_def sortSlice_def lessRecord_def)

lemma nanGrouped_months:
  "monthMapOf 2024 nanGrouped 1 = None"
  "monthMapOf 2024 nanGrouped 2 =
     Some \<lparr>MonthlyRevenue.Year = 2024, Month = 2, Revenue = Num 100\<rparr>"
  "floatAt (prevMapOf 2024 nanGrouped) 1 = Num 0"
  "floatAt (prevMapOf 2024 nanGrouped) 2 = NaN"
  by (simp_all add: nanGrouped_tables floatAt_def nreal_defs)

lemma nanRun_project:
  "fst nanRun =
     project [2] [2] 2024 (monthMapOf 2024 nanGrouped) (prevMapOf 2024 nanGrouped) Map.empty
       nanAssumptions"
  using nanRun_success by (simp add: nanRun_def BuildYearProjection_success)

lemma nanRun_rates:
  "yoyRates (monthMapOf 2024 nanGrouped) (prevMapOf 2024 nanGrouped) [2] =
     (NaN, 1, [2 \<mapsto> NaN])"
  "momRates (monthMapOf 2024 nanGrouped) (prevMapOf 2024 nanGrouped) [2] =
     (Num 0, 0, Map.empty)"
  by (simp_all add: yoyRates_def momRates_def nanGrouped_tables sortSlice_def momBase_def
      recordAt_def floatAt_def sameYearRecord_def previousMonth_def Let_def nreal_defs)

lemma nanRun_January:
  "PreviousRevenue (Months (fst nanRun) ! 0) = Num 0"
  "PreviousMonthRevenue (Months (fst nanRun) ! 0) = Num 0"
  "MonthEstimate.Revenue (Months (fst nanRun) ! 0) = NaN"
proof -
  have e: "Months (fst nanRun) ! 0 =
      missingMonth 2024 (prevMapOf 2024 nanGrouped) (AvgYoY (fst nanRun)) (AvgMoM (fst nanRun))
        Map.empty 1
        (lastRevenueAt [2] [2] 2024 (monthMapOf 2024 nanGrouped) (prevMapOf 2024 nanGrouped)
           Map.empty 1)"
    unfolding nanRun_project
    using project_month [of 1 "[2]" "[2]" 2024 "monthMapOf 2024 nanGrouped"
        "prevMapOf 2024 nanGrouped" Map.empty nanAssumptions]
    by (simp add: nanGrouped_months)
  have yoy: "AvgYoY (fst nanRun) = NaN"
    unfolding nanRun_project
    by (simp add: project_AvgYoY nanRun_rates average_def float64_nreal nreal_defs)
  show "PreviousRevenue (Months (fst nanRun) ! 0) = Num 0"
    and "PreviousMonthRevenue (Months (fst nanRun) ! 0) = Num 0"
    and "MonthEstimate.Revenue (Months (fst nanRun) ! 0) = NaN"
    unfolding e
    by (simp_all add: missingMonth_fields missingMonth_Revenue lastRevenueAt_first
        nanGrouped_months yoy nreal_defs)
qed

lemma nanRun_February:
  "PreviousRevenue (Months (fst nanRun) ! 1) = NaN"
  "PreviousMonthRevenue (Months (fst nanRun) ! 1) = Num 0"
  "MonthEstimate.Revenue (Months (fst nanRun) ! 1) = Num 100"
proof -
  have last: "lastRevenueAt [2] [2] 2024 (monthMapOf 2024 nanGrouped)
      (prevMapOf 2024 nanGrouped) Map.empty 2 = Num 0"
    using lastRevenueAt_next [of 1 "[2]" "[2]" 2024 "monthMapOf 2024 nanGrouped"
        "prevMapOf 2024 nanGrouped" Map.empty]
    by (simp add: nanGrouped_months missingMonth_Revenue lastRevenueAt_first nanRun_rates
        average_def float64_nreal nreal_defs)
  have e: "Months (fst nanRun) ! 1 =
      actualMonth 2024 (monthMapOf 2024 nanGrouped) (prevMapOf 2024 nanGrouped)
        (snd (snd (yoyRates (monthMapOf 2024 nanGrouped) (prevMapOf 2024 nanGrouped) [2])))
        (snd (snd (momRates (monthMapOf 2024 nanGrouped) (prevMapOf 2024 nanGrouped) [2])))
        2 \<lparr>MonthlyRevenue.Year = 2024, Month = 2, Revenue = Num 100\<rparr>
        (lastRevenueAt [2] [2] 2024 (monthMapOf 2024 nanGrouped) (prevMapOf 2024 nanGrouped)
           Map.empty 2)"
    unfolding nanRun_project
    using project_month [of 2 "[2]" "[2]" 2024 "monthMapOf 2024 nanGrouped"
        "prevMapOf 2024 nanGrouped" Map.empty nanAssumptions]
    by (simp add: nanGrouped_months)
  show "PreviousRevenue (Months (fst nanRun) ! 1) = NaN"
    and "PreviousMonthRevenue (Months (fst nanRun) ! 1) = Num 0"
    and "MonthEstimate.Revenue (Months (fst nanRun) ! 1) = Num 100"
    unfolding e last
    by (simp_all add: actualMonth_fields nanGrouped_months previousYearMonthRevenue_def
        sameYearRecord_def previousMonth_def nreal_defs)
qed

theorem divisions_are_guarded_witness:
  "BuildYearProjectionChecked guarded [2] [2] 2024 nanGrouped Map.empty nanAssumptions =
     Some nanRun \<and>
   BuildYearProjectionChecked notZero [2] [2] 2024 nanGrouped Map.empty nanAssumptions =
     Some nanRun \<and>
   snd nanRun = None \<and>
   Upside (fst nanRun) = 0 \<and>
   AvgMoM (fst nanRun) = 0 \<and>
   AvgYoY (fst nanRun) = NaN \<and>
   MonthEstimate.MoM (Months (fst nanRun) ! 0) = 0 \<and>
   \<not> HasReference (Months (fst nanRun) ! 0) \<and>
   PreviousRevenue (Months (fst nanRun) ! 1) = NaN \<and>
   MonthEstimate.YoY (Months (fst nanRun) ! 1) = NaN \<and>
   MonthEstimate.MoM (Months (fst nanRun) ! 1) = 0"
proof -
  note t = divisions_are_guarded [of "[2]" "[2]" 2024 nanGrouped Map.empty nanAssumptions,
      OF nreal_laws, folded nanRun_def]
  from t have checked:
    "BuildYearProjectionChecked guarded [2] [2] 2024 nanGrouped Map.empty nanAssumptions =
       Some nanRun"
    "BuildYearProjectionChecked notZero [2] [2] 2024 nanGrouped Map.empty nanAssumptions =
       Some nanRun"
    by simp_all
  have s: "snd nanRun = None"
    by (subst nanRun_success) simp
  from t nanRun_success have f:
    "Upside (fst nanRun) =
       (if 0 < CurrentPrice nanAssumptions
        then (EstimatedPrice (fst nanRun) - CurrentPrice nanAssumptions) /
             CurrentPrice nanAssumptions
        else 0)"
    "AvgYoY (fst nanRun) =
       (if 0 < fst (snd (yoyRates (monthMapOf 2024 nanGrouped) (prevMapOf 2024 nanGrouped) [2]))
        then fst (yoyRates (monthMapOf 2024 nanGrouped) (prevMapOf 2024 nanGrouped) [2]) /
             float64
               (fst (snd (yoyRates (monthMapOf 2024 nanGrouped) (prevMapOf 2024 nanGrouped)
                            [2])))
        else 0)"
    "AvgMoM (fst nanRun) =
       (if 0 < fst (snd (momRates (monthMapOf 2024 nanGrouped) (prevMapOf 2024 nanGrouped) [2]))
        then fst (momRates (monthMapOf 2024 nanGrouped) (prevMapOf 2024 nanGrouped) [2]) /
             float64
               (fst (snd (momRates (monthMapOf 2024 nanGrouped) (prevMapOf 2024 nanGrouped)
                            [2])))
        else 0)"
    by blast+
  from f(1) have upside: "Upside (fst nanRun) = 0"
    by (simp add: nanAssumptions_def nreal_defs)
  from f(2) have yoy: "AvgYoY (fst nanRun) = NaN"
    by (simp add: nanRun_rates float64_nreal nreal_defs)
  from f(3) have mom: "AvgMoM (fst nanRun) = 0"
    by (simp add: nanRun_rates)
  from t nanRun_success nanGrouped_months(1) have
    "MonthEstimate.MoM (Months (fst nanRun) ! nat (1 - 1)) =
       (if 0 < PreviousMonthRevenue (Months (fst nanRun) ! nat (1 - 1))
        then (MonthEstimate.Revenue (Months (fst nanRun) ! nat (1 - 1)) -
                PreviousMonthRevenue (Months (fst nanRun) ! nat (1 - 1))) /
             PreviousMonthRevenue (Months (fst nanRun) ! nat (1 - 1))
        else 0) \<and>
     HasReference (Months (fst nanRun) ! nat (1 - 1)) =
       (0 < PreviousRevenue (Months (fst nanRun) ! nat (1 - 1)) \<or>
        0 < PreviousMonthRevenue (Months (fst nanRun) ! nat (1 - 1)))"
    by (metis order_refl one_le_numeral)
  then have january: "MonthEstimate.MoM (Months (fst nanRun) ! 0) = 0 \<and>
      \<not> HasReference (Months (fst nanRun) ! 0)"
    by (simp add: nanRun_January nreal_defs)
  have two: "(1::int) \<le> 2" "(2::int) \<le> 12" "(2::int) \<in> set [2]"
    by simp_all
  from t nanRun_success nanGrouped_months(2) two have
    "MonthEstimate.YoY (Months (fst nanRun) ! nat (2 - 1)) =
       (if 2 \<in> set [2::int] \<and> \<not> PreviousRevenue (Months (fst nanRun) ! nat (2 - 1)) \<le> 0
        then (MonthEstimate.Revenue (Months (fst nanRun) ! nat (2 - 1)) -
                PreviousRevenue (Months (fst nanRun) ! nat (2 - 1))) /
             PreviousRevenue (Months (fst nanRun) ! nat (2 - 1))
        else 0) \<and>
     MonthEstimate.MoM (Months (fst nanRun) ! nat (2 - 1)) =
       (if 2 \<in> set [2::int] \<and>
           \<not> momBase (monthMapOf 2024 nanGrouped) (prevMapOf 2024 nanGrouped) 2 \<le> 0
        then (MonthEstimate.Revenue (Months (fst nanRun) ! nat (2 - 1)) -
                momBase (monthMapOf 2024 nanGrouped) (prevMapOf 2024 nanGrouped) 2) /
             momBase (monthMapOf 2024 nanGrouped) (prevMapOf 2024 nanGrouped) 2
        else if 0 < PreviousMonthRevenue (Months (fst nanRun) ! nat (2 - 1))
        then (MonthEstimate.Revenue (Months (fst nanRun) ! nat (2 - 1)) -
                PreviousMonthRevenue (Months (fst nanRun) ! nat (2 - 1))) /
             PreviousMonthRevenue (Months (fst nanRun) ! nat (2 - 1))
        else 0)"
    by blast
  moreover have "nat (2 - 1) = 1" by simp
  moreover have "momBase (monthMapOf 2024 nanGrouped) (prevMapOf 2024 nanGrouped) 2 = Num 0"
    by (simp add: momBase_def nanGrouped_tables recordAt_def sameYearRecord_def
        previousMonth_def nreal_defs)
  ultimately have february: "MonthEstimate.YoY (Months (fst nanRun) ! 1) = NaN \<and>
      MonthEstimate.MoM (Months (fst nanRun) ! 1) = 0"
    by (simp only: nanRun_February) (simp add: nreal_defs)
  from checked s upside mom yoy january nanRun_February(1) february show ?thesis
    by blast
qed

text \<open>
  Claim C9 as it is written fails: not every division is preceded by a test that the divisor
  is strictly positive. In the run below \<^verbatim>\<open>SharesOutstanding\<close> is positive and no error is
  returned; the revenue of February in the year before is a NaN, the test \<^verbatim>\<open>prev <= 0\<close>
  of line 119 is false of it, and line 122 divides by it: the rate of February is the NaN
  that this division gives, and the engine that checks its divisors to be strictly positive
  stops.
\<close>

theorem divisions_counterexample:
  "snd nanRun = None \<and>
   0 < SharesOutstanding nanAssumptions \<and>
   MonthEstimate.IsActual (Months (fst nanRun) ! 1) \<and>
   PreviousRevenue (Months (fst nanRun) ! 1) = NaN \<and>
   \<not> PreviousRevenue (Months (fst nanRun) ! 1) \<le> 0 \<and>
   \<not> 0 < PreviousRevenue (Months (fst nanRun) ! 1) \<and>
   MonthEstimate.YoY (Months (fst nanRun) ! 1) =
     (MonthEstimate.Revenue (Months (fst nanRun) ! 1) -
        PreviousRevenue (Months (fst nanRun) ! 1)) /
     PreviousRevenue (Months (fst nanRun) ! 1) \<and>
   MonthEstimate.YoY (Months (fst nanRun) ! 1) = NaN \<and>
   BuildYearProjectionChecked strictlyPositive [2] [2] 2024 nanGrouped Map.empty
     nanAssumptions = None"
proof -
  have s: "snd nanRun = None"
    by (subst nanRun_success) simp
  have shares: "0 < SharesOutstanding nanAssumptions"
    by (simp add: nanAssumptions_def nreal_defs)
  have e: "Months (fst nanRun) ! 1 =
      actualMonth 2024 (monthMapOf 2024 nanGrouped) (prevMapOf 2024 nanGrouped)
        (snd (snd (yoyRates (monthMapOf 2024 nanGrouped) (prevMapOf 2024 nanGrouped) [2])))
        (snd (snd (momRates (monthMapOf 2024 nanGrouped) (prevMapOf 2024 nanGrouped) [2])))
        2 \<lparr>MonthlyRevenue.Year = 2024, Month = 2, Revenue = Num 100\<rparr>
        (lastRevenueAt [2] [2] 2024 (monthMapOf 2024 nanGrouped) (prevMapOf 2024 nanGrouped)
           Map.empty 2)"
    unfolding nanRun_project
    using project_month [of 2 "[2]" "[2]" 2024 "monthMapOf 2024 nanGrouped"
        "prevMapOf 2024 nanGrouped" Map.empty nanAssumptions]
    by (simp add: nanGrouped_months)
  have actual: "MonthEstimate.IsActual (Months (fst nanRun) ! 1)"
    and yoy: "MonthEstimate.YoY (Months (fst nanRun) ! 1) = NaN"
    unfolding e
    by (simp_all add: actualMonth_fields nanRun_rates floatAt_def)
  have stops: "BuildYearProjectionChecked strictlyPositive [2] [2] 2024 nanGrouped Map.empty
      nanAssumptions = None"
    by (simp add: BuildYearProjectionChecked_def projectChecked_def SortMonthlyRevenues_Nil
        recordsOf_def nanGrouped_def nanAssumptions_def nanGrouped_tables [unfolded nanGrouped_def]
        floatAt_def recordAt_def checkedDiv_def strictlyPositive_def Let_def nreal_defs)
  from s shares actual yoy stops nanRun_February show ?thesis
    by (simp add: nreal_defs)
qed

end
